theory Spec2Isabelle
  imports Main "HOL-Library.Word"
begin

section \<open>The configuration document\<close>

text \<open>
  The generator of \<^verbatim>\<open>generate/generate.go\<close> edits one in-memory document, a value of the
  Go type \<^verbatim>\<open>rspec.Spec\<close>. The type declarations live in the package \<^verbatim>\<open>specs-go\<close>, which is
  not part of the sources at hand; the records below carry the fields that
  \<^verbatim>\<open>generate.go\<close> reads and writes, under the names it uses. A Go pointer that may be
  \<^verbatim>\<open>nil\<close> is an \<open>option\<close>, a slice is a list (a \<^verbatim>\<open>nil\<close> slice and an empty one are both
  \<open>[]\<close>), a map that may be \<^verbatim>\<open>nil\<close> is an optional association list, \<^verbatim>\<open>uint32\<close> and
  \<^verbatim>\<open>uint64\<close> are machine words.
\<close>

record Platform =
  OS :: string
  Arch :: string

record Root =
  Path :: string
  Readonly :: bool

record User =
  UID :: "32 word"
  GID :: "32 word"
  AdditionalGids :: "32 word list"

record LinuxRlimit =
  Type :: string
  Hard :: "64 word"
  Soft :: "64 word"

record Process =
  Terminal :: bool
  User :: User
  Args :: "string list"
  Env :: "string list"
  Cwd :: string
  Capabilities :: "string list"
  Rlimits :: "LinuxRlimit list"
  NoNewPrivileges :: bool
  ApparmorProfile :: string
  SelinuxLabel :: string

record Mount =
  Destination :: string
  Type :: string
  Source :: string
  Options :: "string list"

record Hook =
  Path :: string
  Args :: "string list"

record Hooks =
  Prestart :: "Hook list"
  Poststart :: "Hook list"
  Poststop :: "Hook list"

text \<open>\<^verbatim>\<open>LinuxNamespaceType\<close> is a Go string type.\<close>

type_synonym LinuxNamespaceType = string

record LinuxNamespace =
  Type :: LinuxNamespaceType
  Path :: string

record LinuxIDMapping =
  HostID :: "32 word"
  ContainerID :: "32 word"
  Size :: "32 word"

text \<open>
  The resource limits, the devices and the syscall filter are only passed around by the
  operations modelled here, never inspected: each is an opaque payload.
\<close>

datatype LinuxResources = LinuxResources string
datatype LinuxDevice = LinuxDevice string
datatype LinuxSeccomp = LinuxSeccomp string

record Linux =
  UIDMappings :: "LinuxIDMapping list"
  GIDMappings :: "LinuxIDMapping list"
  Sysctl :: "(string \<times> string) list option"
  Resources :: "LinuxResources option"
  CgroupsPath :: string
  Namespaces :: "LinuxNamespace list"
  Devices :: "LinuxDevice list"
  Seccomp :: "LinuxSeccomp option"
  RootfsPropagation :: string
  MaskedPaths :: "string list"
  ReadonlyPaths :: "string list"
  MountLabel :: string

record Spec =
  Version :: string
  Platform :: Platform
  Process :: Process
  Root :: Root
  Hostname :: string
  Mounts :: "Mount list"
  Hooks :: Hooks
  Annotations :: "(string \<times> string) list option"
  Linux :: "Linux option"

text \<open>\<^verbatim>\<open>type Generator struct { spec *rspec.Spec; HostSpecific bool }\<close>\<close>

record Generator =
  spec :: "Spec option"
  HostSpecific :: bool

text \<open>\<^verbatim>\<open>type ExportOptions struct { Seccomp bool }\<close>\<close>

record ExportOptions =
  Seccomp :: bool

text \<open>
  Every error of this file is built by \<^verbatim>\<open>fmt.Errorf\<close>: a message and nothing else. A method
  of Go type \<^verbatim>\<open>func (g *Generator) M(...) error\<close> becomes a function that returns the
  generator after the call together with \<open>None\<close> for \<^verbatim>\<open>nil\<close> or \<open>Some\<close> error.
\<close>

datatype error = Errorf string

section \<open>Lazy initialisation\<close>

text \<open>
  Modelled from the spec: the zero values \<^verbatim>\<open>rspec.Spec{}\<close> and \<^verbatim>\<open>rspec.Linux{}\<close> and the
  helpers \<^verbatim>\<open>initSpec\<close>, \<^verbatim>\<open>initSpecLinux\<close>, which \<^verbatim>\<open>generate.go\<close> calls and another file of
  the package defines. Section 4.1: an operation on a field under an optional ancestor
  first ensures that all missing ancestors exist, "allocating them with zero/empty
  values", and does nothing to an ancestor that is present.
\<close>

definition zeroUser :: User where
  "zeroUser = \<lparr>UID = 0, GID = 0, AdditionalGids = []\<rparr>"

definition zeroProcess :: Process where
  "zeroProcess = \<lparr>Terminal = False, User = zeroUser, Process.Args = [], Env = [], Cwd = [],
     Capabilities = [], Rlimits = [], NoNewPrivileges = False, ApparmorProfile = [],
     SelinuxLabel = []\<rparr>"

definition zeroLinux :: Linux where
  "zeroLinux = \<lparr>UIDMappings = [], GIDMappings = [], Sysctl = None, Resources = None,
     CgroupsPath = [], Namespaces = [], Devices = [], Linux.Seccomp = None,
     RootfsPropagation = [], MaskedPaths = [], ReadonlyPaths = [], MountLabel = []\<rparr>"

definition zeroSpec :: Spec where
  "zeroSpec = \<lparr>Version = [], Platform = \<lparr>OS = [], Arch = []\<rparr>, Process = zeroProcess,
     Root = \<lparr>Root.Path = [], Readonly = False\<rparr>, Hostname = [], Mounts = [],
     Hooks = \<lparr>Prestart = [], Poststart = [], Poststop = []\<rparr>, Annotations = None,
     Linux = None\<rparr>"

definition initSpec :: "Generator \<Rightarrow> Generator" where
  "initSpec g = (case spec g of None \<Rightarrow> g\<lparr>spec := Some zeroSpec\<rparr> | Some _ \<Rightarrow> g)"

text \<open>
  \<open>the_spec g\<close> is the document that \<open>initSpec g\<close> holds: the document of \<open>g\<close>, or the
  zero document when \<open>g\<close> has none. \<open>the_linux\<close> is the same for the Linux subtree.
\<close>

definition the_spec :: "Generator \<Rightarrow> Spec" where
  "the_spec g = (case spec g of None \<Rightarrow> zeroSpec | Some s \<Rightarrow> s)"

definition the_linux :: "Spec \<Rightarrow> Linux" where
  "the_linux s = (case Linux s of None \<Rightarrow> zeroLinux | Some l \<Rightarrow> l)"

definition initSpecLinux :: "Generator \<Rightarrow> Generator" where
  "initSpecLinux g =
     (let g1 = initSpec g; s = the_spec g1
      in case Linux s of None \<Rightarrow> g1\<lparr>spec := Some (s\<lparr>Linux := Some zeroLinux\<rparr>)\<rparr>
                        | Some _ \<Rightarrow> g1)"

section \<open>Mount construction\<close>

text \<open>
  \<^verbatim>\<open>AddCgroupsMount\<close>: a Go \<^verbatim>\<open>switch\<close> does not fall through, so the empty cases "ro" and
  "rw" leave the switch and reach the code after it, "no" returns \<^verbatim>\<open>nil\<close> at once, and
  every other string returns the error.
\<close>

definition AddCgroupsMount :: "string \<Rightarrow> Generator \<Rightarrow> Generator \<times> error option" where
  "AddCgroupsMount mountCgroupOption g =
     (if mountCgroupOption = ''ro'' \<or> mountCgroupOption = ''rw'' then
        (let mnt = \<lparr>Destination = ''/sys/fs/cgroup'', Mount.Type = ''cgroup'',
                    Source = ''cgroup'',
                    Options = [''nosuid'', ''noexec'', ''nodev'', ''relatime'',
                               mountCgroupOption]\<rparr>;
             g1 = initSpec g; s = the_spec g1
         in (g1\<lparr>spec := Some (s\<lparr>Mounts := Mounts s @ [mnt]\<rparr>)\<rparr>, None))
      else if mountCgroupOption = ''no'' then (g, None)
      else (g, Some (Errorf ''--mount-cgroups should be one of (ro,rw,no)'')))"

text \<open>
  \<^verbatim>\<open>AddBindMount\<close>. The loop over the options stops at the first "bind" or "rbind";
  \<open>foundBindOption\<close> is that loop.
\<close>

fun foundBindOption :: "string list \<Rightarrow> bool" where
  "foundBindOption [] = False"
| "foundBindOption (opt # options) =
     (if opt = ''bind'' \<or> opt = ''rbind'' then True else foundBindOption options)"

definition bindOptions :: "string list \<Rightarrow> string list" where
  "bindOptions options =
     (let options1 = (if length options = 0 then [''rw''] else options)
      in if \<not> foundBindOption options1 then options1 @ [''bind''] else options1)"

definition AddBindMount :: "string \<Rightarrow> string \<Rightarrow> string list \<Rightarrow> Generator \<Rightarrow> Generator" where
  "AddBindMount source dest options g =
     (let mnt = \<lparr>Destination = dest, Mount.Type = ''bind'', Source = source,
                 Options = bindOptions options\<rparr>;
          g1 = initSpec g; s = the_spec g1
      in g1\<lparr>spec := Some (s\<lparr>Mounts := Mounts s @ [mnt]\<rparr>)\<rparr>)"

section \<open>Capabilities\<close>

text \<open>
  The capability registry is the package \<^verbatim>\<open>capability\<close>, which is not among the sources.
  \<^verbatim>\<open>generate.go\<close> uses four things of it, and the model takes them as a parameter:
  \<^verbatim>\<open>capability.List()\<close>, the method \<^verbatim>\<open>Cap.String()\<close>, and the two constants
  \<^verbatim>\<open>CAP_LAST_CAP\<close> and \<^verbatim>\<open>CAP_BLOCK_SUSPEND\<close>. \<^verbatim>\<open>Cap\<close> is a Go integer type.
\<close>

type_synonym Cap = int

record CapabilityRegistry =
  capability_List :: "Cap list"
  Cap_String :: "Cap \<Rightarrow> string"
  CAP_LAST_CAP :: Cap
  CAP_BLOCK_SUSPEND :: Cap

text \<open>
  \<^verbatim>\<open>strings.ToUpper\<close> belongs to the Go library. It decodes its argument as UTF-8 and maps
  every rune to its upper case, letters outside ASCII included. The model does not
  fix it: each function below that calls it takes it as its first parameter,
  \<open>ToUpper\<close>, and everything proved in general holds for whatever function that is.
\<close>

definition lastCap :: "CapabilityRegistry \<Rightarrow> Cap" where
  "lastCap reg =
     (let last = CAP_LAST_CAP reg
      in if last = 63 then CAP_BLOCK_SUSPEND reg else last)"

text \<open>
  \<^verbatim>\<open>checkCap\<close>: the loop over \<^verbatim>\<open>capability.List()\<close> returns the host error from inside,
  or leaves with \<^verbatim>\<open>isValid\<close>, which is \<open>True\<close> after the \<^verbatim>\<open>break\<close> and \<open>False\<close> when the
  list is exhausted.
\<close>

fun checkCapLoop ::
  "(string \<Rightarrow> string) \<Rightarrow> CapabilityRegistry \<Rightarrow> string \<Rightarrow> bool \<Rightarrow> Cap list \<Rightarrow> error + bool" where
  "checkCapLoop ToUpper reg cp hostSpecific [] = Inr False"
| "checkCapLoop ToUpper reg cp hostSpecific (cap # caps) =
     (if cp = ToUpper (Cap_String reg cap) then
        (if hostSpecific \<and> cap > lastCap reg
         then Inl (Errorf (''CAP_'' @ cp @ '' is not supported on the current host''))
         else Inr True)
      else checkCapLoop ToUpper reg cp hostSpecific caps)"

definition checkCap ::
  "(string \<Rightarrow> string) \<Rightarrow> CapabilityRegistry \<Rightarrow> string \<Rightarrow> bool \<Rightarrow> error option" where
  "checkCap ToUpper reg c hostSpecific =
     (case checkCapLoop ToUpper reg (ToUpper c) hostSpecific (capability_List reg) of
        Inl err \<Rightarrow> Some err
      | Inr isValid \<Rightarrow>
          if \<not> isValid then Some (Errorf ''Invalid value passed for adding capability'')
          else None)"

definition ClearProcessCapabilities :: "Generator \<Rightarrow> Generator" where
  "ClearProcessCapabilities g =
     (case spec g of
        None \<Rightarrow> g
      | Some s \<Rightarrow> g\<lparr>spec := Some (s\<lparr>Process := (Process s)\<lparr>Capabilities := []\<rparr>\<rparr>)\<rparr>)"

text \<open>
  The loops over a slice that leave at the first element of some kind: \<open>firstIndex\<close> is
  the index at which such a loop leaves, \<open>None\<close> when it runs to the end.
\<close>

fun firstIndex :: "('a \<Rightarrow> bool) \<Rightarrow> 'a list \<Rightarrow> nat option" where
  "firstIndex P [] = None"
| "firstIndex P (x # xs) = (if P x then Some 0 else map_option Suc (firstIndex P xs))"

text \<open>\<^verbatim>\<open>append(s[:i], s[i+1:]...)\<close>\<close>

definition removeAt :: "nat \<Rightarrow> 'a list \<Rightarrow> 'a list" where
  "removeAt i xs = take i xs @ drop (i + 1) xs"

definition AddProcessCapability ::
  "(string \<Rightarrow> string) \<Rightarrow> CapabilityRegistry \<Rightarrow> string \<Rightarrow> Generator \<Rightarrow> Generator \<times> error option" where
  "AddProcessCapability ToUpper reg c g =
     (case checkCap ToUpper reg c (HostSpecific g) of
        Some err \<Rightarrow> (g, Some err)
      | None \<Rightarrow>
          (let cp = ''CAP_'' @ ToUpper c;
               g1 = initSpec g; s = the_spec g1;
               caps = Capabilities (Process s)
           in case firstIndex (\<lambda>cap. ToUpper cap = cp) caps of
                Some _ \<Rightarrow> (g1, None)
              | None \<Rightarrow>
                  (g1\<lparr>spec := Some (s\<lparr>Process := (Process s)\<lparr>Capabilities := caps @ [cp]\<rparr>\<rparr>)\<rparr>,
                   None)))"

definition DropProcessCapability ::
  "(string \<Rightarrow> string) \<Rightarrow> CapabilityRegistry \<Rightarrow> string \<Rightarrow> Generator \<Rightarrow> Generator \<times> error option" where
  "DropProcessCapability ToUpper reg c g =
     (case checkCap ToUpper reg c (HostSpecific g) of
        Some err \<Rightarrow> (g, Some err)
      | None \<Rightarrow>
          (let cp = ''CAP_'' @ ToUpper c;
               g1 = initSpec g; s = the_spec g1;
               caps = Capabilities (Process s)
           in case firstIndex (\<lambda>cap. ToUpper cap = cp) caps of
                Some i \<Rightarrow>
                  (g1\<lparr>spec := Some (s\<lparr>Process := (Process s)\<lparr>Capabilities := removeAt i caps\<rparr>\<rparr>)\<rparr>,
                   None)
              | None \<Rightarrow> (g1, None)))"

text \<open>
  \<^verbatim>\<open>SetupPrivileged\<close>: the loop skips a capability above \<^verbatim>\<open>lastCap()\<close> when the
  generator is host specific and appends \<^verbatim>\<open>"CAP_" + ToUpper(cap.String())\<close> otherwise.
\<close>

fun finalCapList ::
  "(string \<Rightarrow> string) \<Rightarrow> CapabilityRegistry \<Rightarrow> bool \<Rightarrow> Cap list \<Rightarrow> string list" where
  "finalCapList ToUpper reg hostSpecific [] = []"
| "finalCapList ToUpper reg hostSpecific (cap # caps) =
     (if hostSpecific \<and> cap > lastCap reg then finalCapList ToUpper reg hostSpecific caps
      else (''CAP_'' @ ToUpper (Cap_String reg cap)) # finalCapList ToUpper reg hostSpecific caps)"

definition SetupPrivileged ::
  "(string \<Rightarrow> string) \<Rightarrow> CapabilityRegistry \<Rightarrow> bool \<Rightarrow> Generator \<Rightarrow> Generator" where
  "SetupPrivileged ToUpper reg privileged g =
     (if privileged then
        (let caps = finalCapList ToUpper reg (HostSpecific g) (capability_List reg);
             g1 = initSpecLinux g; s = the_spec g1;
             s1 = s\<lparr>Process := (Process s)\<lparr>Capabilities := caps\<rparr>\<rparr>;
             s2 = s1\<lparr>Process := (Process s1)\<lparr>SelinuxLabel := []\<rparr>\<rparr>;
             s3 = s2\<lparr>Process := (Process s2)\<lparr>ApparmorProfile := []\<rparr>\<rparr>;
             s4 = s3\<lparr>Linux := Some ((the_linux s3)\<lparr>Linux.Seccomp := None\<rparr>)\<rparr>
         in g1\<lparr>spec := Some s4\<rparr>)
      else g)"

section \<open>Namespaces\<close>

text \<open>\<^verbatim>\<open>Namespaces = []string{"network", "pid", "mount", "ipc", "uts", "user", "cgroup"}\<close>\<close>

definition Namespaces_names :: "string list" where
  "Namespaces_names = [''network'', ''pid'', ''mount'', ''ipc'', ''uts'', ''user'', ''cgroup'']"

text \<open>
  Modelled from the spec: the seven constants of type \<^verbatim>\<open>LinuxNamespaceType\<close>, declared in
  \<^verbatim>\<open>specs-go\<close>. Section 3 lists the kinds (network, process-id, mount, inter-process
  communication, host/domain-name, user, cgroup); each constant is the string of its
  kind.
\<close>

definition NetworkNamespace :: LinuxNamespaceType where "NetworkNamespace = ''network''"
definition PIDNamespace :: LinuxNamespaceType where "PIDNamespace = ''pid''"
definition MountNamespace :: LinuxNamespaceType where "MountNamespace = ''mount''"
definition IPCNamespace :: LinuxNamespaceType where "IPCNamespace = ''ipc''"
definition UTSNamespace :: LinuxNamespaceType where "UTSNamespace = ''uts''"
definition UserNamespace :: LinuxNamespaceType where "UserNamespace = ''user''"
definition CgroupNamespace :: LinuxNamespaceType where "CgroupNamespace = ''cgroup''"

definition mapStrToNamespace :: "string \<Rightarrow> string \<Rightarrow> LinuxNamespace \<times> error option" where
  "mapStrToNamespace ns path =
     (if ns = ''network'' then (\<lparr>Type = NetworkNamespace, Path = path\<rparr>, None)
      else if ns = ''pid'' then (\<lparr>Type = PIDNamespace, Path = path\<rparr>, None)
      else if ns = ''mount'' then (\<lparr>Type = MountNamespace, Path = path\<rparr>, None)
      else if ns = ''ipc'' then (\<lparr>Type = IPCNamespace, Path = path\<rparr>, None)
      else if ns = ''uts'' then (\<lparr>Type = UTSNamespace, Path = path\<rparr>, None)
      else if ns = ''user'' then (\<lparr>Type = UserNamespace, Path = path\<rparr>, None)
      else if ns = ''cgroup'' then (\<lparr>Type = CgroupNamespace, Path = path\<rparr>, None)
      else (\<lparr>Type = [], Path = []\<rparr>, Some (Errorf ''Should not reach here!'')))"

definition ClearLinuxNamespaces :: "Generator \<Rightarrow> Generator" where
  "ClearLinuxNamespaces g =
     (case spec g of
        None \<Rightarrow> g
      | Some s \<Rightarrow>
          (case Linux s of
             None \<Rightarrow> g
           | Some l \<Rightarrow> g\<lparr>spec := Some (s\<lparr>Linux := Some (l\<lparr>Namespaces := []\<rparr>)\<rparr>)\<rparr>))"

definition AddOrReplaceLinuxNamespace ::
  "string \<Rightarrow> string \<Rightarrow> Generator \<Rightarrow> Generator \<times> error option" where
  "AddOrReplaceLinuxNamespace ns path g =
     (case mapStrToNamespace ns path of
        (_, Some err) \<Rightarrow> (g, Some err)
      | (namespace, None) \<Rightarrow>
          (let g1 = initSpecLinux g; s = the_spec g1; l = the_linux s;
               nss = Namespaces l
           in case firstIndex (\<lambda>n. LinuxNamespace.Type n = LinuxNamespace.Type namespace) nss of
                Some i \<Rightarrow>
                  (g1\<lparr>spec := Some (s\<lparr>Linux := Some (l\<lparr>Namespaces := nss[i := namespace]\<rparr>)\<rparr>)\<rparr>,
                   None)
              | None \<Rightarrow>
                  (g1\<lparr>spec := Some (s\<lparr>Linux := Some (l\<lparr>Namespaces := nss @ [namespace]\<rparr>)\<rparr>)\<rparr>,
                   None)))"

definition RemoveLinuxNamespace :: "string \<Rightarrow> Generator \<Rightarrow> Generator \<times> error option" where
  "RemoveLinuxNamespace ns g =
     (case mapStrToNamespace ns [] of
        (_, Some err) \<Rightarrow> (g, Some err)
      | (namespace, None) \<Rightarrow>
          (case spec g of
             None \<Rightarrow> (g, None)
           | Some s \<Rightarrow>
               (case Linux s of
                  None \<Rightarrow> (g, None)
                | Some l \<Rightarrow>
                    (case firstIndex (\<lambda>n. LinuxNamespace.Type n = LinuxNamespace.Type namespace)
                            (Namespaces l) of
                       Some i \<Rightarrow>
                         (g\<lparr>spec := Some (s\<lparr>Linux :=
                               Some (l\<lparr>Namespaces := removeAt i (Namespaces l)\<rparr>)\<rparr>)\<rparr>,
                          None)
                     | None \<Rightarrow> (g, None)))))"

section \<open>Resource limits of the process\<close>

definition AddProcessRlimits :: "string \<Rightarrow> 64 word \<Rightarrow> 64 word \<Rightarrow> Generator \<Rightarrow> Generator" where
  "AddProcessRlimits rType rHard rSoft g =
     (let g1 = initSpec g; s = the_spec g1; rls = Rlimits (Process s)
      in case firstIndex (\<lambda>rlimit. LinuxRlimit.Type rlimit = rType) rls of
           Some i \<Rightarrow>
             g1\<lparr>spec := Some (s\<lparr>Process := (Process s)
                  \<lparr>Rlimits := rls[i := (rls ! i)\<lparr>Hard := rHard, Soft := rSoft\<rparr>]\<rparr>\<rparr>)\<rparr>
         | None \<Rightarrow>
             (let newRlimit = \<lparr>LinuxRlimit.Type = rType, Hard = rHard, Soft = rSoft\<rparr>
              in g1\<lparr>spec := Some (s\<lparr>Process := (Process s)\<lparr>Rlimits := rls @ [newRlimit]\<rparr>\<rparr>)\<rparr>))"

definition RemoveProcessRlimits :: "string \<Rightarrow> Generator \<Rightarrow> Generator \<times> error option" where
  "RemoveProcessRlimits rType g =
     (case spec g of
        None \<Rightarrow> (g, None)
      | Some s \<Rightarrow>
          (case firstIndex (\<lambda>rlimit. LinuxRlimit.Type rlimit = rType) (Rlimits (Process s)) of
             Some i \<Rightarrow>
               (g\<lparr>spec := Some (s\<lparr>Process := (Process s)
                     \<lparr>Rlimits := removeAt i (Rlimits (Process s))\<rparr>\<rparr>)\<rparr>,
                None)
           | None \<Rightarrow> (g, None)))"

definition ClearProcessRlimits :: "Generator \<Rightarrow> Generator" where
  "ClearProcessRlimits g =
     (case spec g of
        None \<Rightarrow> g
      | Some s \<Rightarrow> g\<lparr>spec := Some (s\<lparr>Process := (Process s)\<lparr>Rlimits := []\<rparr>\<rparr>)\<rparr>)"

section \<open>The other clearing and removing operations\<close>

definition ClearProcessEnv :: "Generator \<Rightarrow> Generator" where
  "ClearProcessEnv g =
     (case spec g of
        None \<Rightarrow> g
      | Some s \<Rightarrow> g\<lparr>spec := Some (s\<lparr>Process := (Process s)\<lparr>Env := []\<rparr>\<rparr>)\<rparr>)"

definition ClearProcessAdditionalGids :: "Generator \<Rightarrow> Generator" where
  "ClearProcessAdditionalGids g =
     (case spec g of
        None \<Rightarrow> g
      | Some s \<Rightarrow>
          g\<lparr>spec := Some (s\<lparr>Process := (Process s)
               \<lparr>User := (User (Process s))\<lparr>AdditionalGids := []\<rparr>\<rparr>\<rparr>)\<rparr>)"

text \<open>\<^verbatim>\<open>make(map[string]string)\<close> is the empty map, which is not \<^verbatim>\<open>nil\<close>.\<close>

definition ClearAnnotations :: "Generator \<Rightarrow> Generator" where
  "ClearAnnotations g =
     (case spec g of
        None \<Rightarrow> g
      | Some s \<Rightarrow> g\<lparr>spec := Some (s\<lparr>Annotations := Some []\<rparr>)\<rparr>)"

text \<open>\<^verbatim>\<open>delete(m, key)\<close> on an association list.\<close>

definition delete_key :: "string \<Rightarrow> (string \<times> string) list \<Rightarrow> (string \<times> string) list" where
  "delete_key key m = filter (\<lambda>kv. fst kv \<noteq> key) m"

definition RemoveAnnotation :: "string \<Rightarrow> Generator \<Rightarrow> Generator" where
  "RemoveAnnotation key g =
     (case spec g of
        None \<Rightarrow> g
      | Some s \<Rightarrow>
          (case Annotations s of
             None \<Rightarrow> g
           | Some m \<Rightarrow> g\<lparr>spec := Some (s\<lparr>Annotations := Some (delete_key key m)\<rparr>)\<rparr>))"

definition ClearLinuxSysctl :: "Generator \<Rightarrow> Generator" where
  "ClearLinuxSysctl g =
     (case spec g of
        None \<Rightarrow> g
      | Some s \<Rightarrow>
          (case Linux s of
             None \<Rightarrow> g
           | Some l \<Rightarrow> g\<lparr>spec := Some (s\<lparr>Linux := Some (l\<lparr>Sysctl := Some []\<rparr>)\<rparr>)\<rparr>))"

definition RemoveLinuxSysctl :: "string \<Rightarrow> Generator \<Rightarrow> Generator" where
  "RemoveLinuxSysctl key g =
     (case spec g of
        None \<Rightarrow> g
      | Some s \<Rightarrow>
          (case Linux s of
             None \<Rightarrow> g
           | Some l \<Rightarrow>
               (case Sysctl l of
                  None \<Rightarrow> g
                | Some m \<Rightarrow>
                    g\<lparr>spec := Some (s\<lparr>Linux := Some (l\<lparr>Sysctl := Some (delete_key key m)\<rparr>)\<rparr>)\<rparr>)))"

definition ClearLinuxUIDMappings :: "Generator \<Rightarrow> Generator" where
  "ClearLinuxUIDMappings g =
     (case spec g of
        None \<Rightarrow> g
      | Some s \<Rightarrow>
          (case Linux s of
             None \<Rightarrow> g
           | Some l \<Rightarrow> g\<lparr>spec := Some (s\<lparr>Linux := Some (l\<lparr>UIDMappings := []\<rparr>)\<rparr>)\<rparr>))"

definition ClearLinuxGIDMappings :: "Generator \<Rightarrow> Generator" where
  "ClearLinuxGIDMappings g =
     (case spec g of
        None \<Rightarrow> g
      | Some s \<Rightarrow>
          (case Linux s of
             None \<Rightarrow> g
           | Some l \<Rightarrow> g\<lparr>spec := Some (s\<lparr>Linux := Some (l\<lparr>GIDMappings := []\<rparr>)\<rparr>)\<rparr>))"

definition ClearPreStartHooks :: "Generator \<Rightarrow> Generator" where
  "ClearPreStartHooks g =
     (case spec g of
        None \<Rightarrow> g
      | Some s \<Rightarrow> g\<lparr>spec := Some (s\<lparr>Hooks := (Hooks s)\<lparr>Prestart := []\<rparr>\<rparr>)\<rparr>)"

definition ClearPostStopHooks :: "Generator \<Rightarrow> Generator" where
  "ClearPostStopHooks g =
     (case spec g of
        None \<Rightarrow> g
      | Some s \<Rightarrow> g\<lparr>spec := Some (s\<lparr>Hooks := (Hooks s)\<lparr>Poststop := []\<rparr>\<rparr>)\<rparr>)"

definition ClearPostStartHooks :: "Generator \<Rightarrow> Generator" where
  "ClearPostStartHooks g =
     (case spec g of
        None \<Rightarrow> g
      | Some s \<Rightarrow> g\<lparr>spec := Some (s\<lparr>Hooks := (Hooks s)\<lparr>Poststart := []\<rparr>\<rparr>)\<rparr>)"

section \<open>Saving\<close>

text \<open>
  \<^verbatim>\<open>Save\<close> calls the JSON encoder three times and the writer once. Both are outside the
  sources and are parameters of the model: each encoder returns the text or an error,
  the writer returns \<open>None\<close> or an error.
\<close>

record Serializer =
  Marshal_Linux :: "Linux \<Rightarrow> error + string"
  MarshalIndent_Seccomp :: "LinuxSeccomp option \<Rightarrow> error + string"
  MarshalIndent_Spec :: "Spec \<Rightarrow> error + string"
  Write :: "string \<Rightarrow> error option"

text \<open>
  A call of \<^verbatim>\<open>Save\<close> ends in one of three ways: the Go runtime panics on a \<^verbatim>\<open>nil\<close>
  pointer, the method returns an error, or it returns \<^verbatim>\<open>nil\<close> after writing the data.
\<close>

datatype saved = Panic | Failed error | Written string

text \<open>
  The first statement of \<^verbatim>\<open>Save\<close>: when \<^verbatim>\<open>g.spec.Linux\<close> is not \<^verbatim>\<open>nil\<close> and encodes to
  \<^verbatim>\<open>{}\<close>, it is set to \<^verbatim>\<open>nil\<close>; an encoding error is returned.
\<close>

definition pruneLinux :: "Serializer \<Rightarrow> Spec \<Rightarrow> error + Spec" where
  "pruneLinux ser s =
     (case Linux s of
        None \<Rightarrow> Inr s
      | Some l \<Rightarrow>
          (case Marshal_Linux ser l of
             Inl err \<Rightarrow> Inl err
           | Inr buf \<Rightarrow> Inr (if buf = ''{}'' then s\<lparr>Linux := None\<rparr> else s)))"

definition Save :: "Serializer \<Rightarrow> ExportOptions \<Rightarrow> Generator \<Rightarrow> Generator \<times> saved" where
  "Save ser exportOpts g =
     (case spec g of
        None \<Rightarrow> (g, Panic)
      | Some s \<Rightarrow>
          (case pruneLinux ser s of
             Inl err \<Rightarrow> (g, Failed err)
           | Inr s1 \<Rightarrow>
               (let g1 = g\<lparr>spec := Some s1\<rparr>
                in if ExportOptions.Seccomp exportOpts then
                     (case Linux s1 of
                        None \<Rightarrow> (g1, Panic)
                      | Some l \<Rightarrow>
                          (case MarshalIndent_Seccomp ser (Linux.Seccomp l) of
                             Inl err \<Rightarrow> (g1, Failed err)
                           | Inr data \<Rightarrow>
                               (case Write ser data of
                                  Some err \<Rightarrow> (g1, Failed err)
                                | None \<Rightarrow> (g1, Written data))))
                   else
                     (case MarshalIndent_Spec ser s1 of
                        Inl err \<Rightarrow> (g1, Failed err)
                      | Inr data \<Rightarrow>
                          (case Write ser data of
                             Some err \<Rightarrow> (g1, Failed err)
                           | None \<Rightarrow> (g1, Written data))))))"

section \<open>Notation and sample inputs\<close>

abbreviation capabilities_of :: "Generator \<Rightarrow> string list" where
  "capabilities_of g \<equiv> Capabilities (Process (the_spec g))"

abbreviation rlimits_of :: "Generator \<Rightarrow> LinuxRlimit list" where
  "rlimits_of g \<equiv> Rlimits (Process (the_spec g))"

abbreviation namespaces_of :: "Generator \<Rightarrow> LinuxNamespace list" where
  "namespaces_of g \<equiv> Namespaces (the_linux (the_spec g))"

text \<open>
  For the examples, \<^verbatim>\<open>strings.ToUpper\<close> on strings of ASCII bytes, where it turns the
  letters a to z into A to Z and keeps every other byte. All strings of the examples
  are ASCII.
\<close>

definition toUpperByte :: "char \<Rightarrow> char" where
  "toUpperByte c =
     (case map_of (zip ''abcdefghijklmnopqrstuvwxyz'' ''ABCDEFGHIJKLMNOPQRSTUVWXYZ'') c of
        Some u \<Rightarrow> u
      | None \<Rightarrow> c)"

definition asciiToUpper :: "string \<Rightarrow> string" where
  "asciiToUpper s = map toUpperByte s"

text \<open>
  Modelled from the spec: a capability registry for the examples, the package
  \<^verbatim>\<open>capability\<close> being outside the sources. Section 6 gives its contract: a list of
  capability tokens in order and a last supported index with a fallback. The tokens are
  the Linux capabilities in the form that \<^verbatim>\<open>checkCap\<close> and \<^verbatim>\<open>SetupPrivileged\<close> presuppose
  when they upper-case a name and put \<^verbatim>\<open>CAP_\<close> in front of it: lower case, without the
  prefix. The host reports 63 as its last capability, the value that \<^verbatim>\<open>lastCap\<close>
  replaces by \<^verbatim>\<open>CAP_BLOCK_SUSPEND\<close>.
\<close>

definition capNames :: "string list" where
  "capNames = [''chown'', ''dac_override'', ''dac_read_search'', ''fowner'', ''fsetid'',
     ''kill'', ''setgid'', ''setuid'', ''setpcap'', ''linux_immutable'',
     ''net_bind_service'', ''net_broadcast'', ''net_admin'', ''net_raw'', ''ipc_lock'',
     ''ipc_owner'', ''sys_module'', ''sys_rawio'', ''sys_chroot'', ''sys_ptrace'',
     ''sys_pacct'', ''sys_admin'', ''sys_boot'', ''sys_nice'', ''sys_resource'',
     ''sys_time'', ''sys_tty_config'', ''mknod'', ''lease'', ''audit_write'',
     ''audit_control'', ''setfcap'', ''mac_override'', ''mac_admin'', ''syslog'',
     ''wake_alarm'', ''block_suspend'', ''audit_read'']"

definition sampleRegistry :: CapabilityRegistry where
  "sampleRegistry = \<lparr>capability_List = map int [0 ..< length capNames],
     Cap_String = (\<lambda>cap. if 0 \<le> cap \<and> nat cap < length capNames then capNames ! nat cap else ''unknown''),
     CAP_LAST_CAP = 63, CAP_BLOCK_SUSPEND = 36\<rparr>"

text \<open>
  Modelled from the spec: a serializer for the examples, the JSON encoder being outside
  the sources. Section 3: the Linux subtree is pruned "when every field is at its
  zero/empty value"; this encoder renders that value as the empty object and every
  other value as something else, and its writer never fails.
\<close>

definition sampleSerializer :: Serializer where
  "sampleSerializer =
     \<lparr>Marshal_Linux = (\<lambda>l. Inr (if l = zeroLinux then ''{}'' else ''{...}'')),
      MarshalIndent_Seccomp = (\<lambda>sc. Inr ''null''),
      MarshalIndent_Spec = (\<lambda>s. Inr ''{...}''),
      Write = (\<lambda>data. None)\<rparr>"

text \<open>
  Three documents for the examples: one whose only capability is \<^verbatim>\<open>CAP_CHOWN\<close>, one with
  the resource limit of the default document, one with the first two namespaces of the
  default document.
\<close>

definition chownGenerator :: Generator where
  "chownGenerator =
     \<lparr>spec = Some (zeroSpec\<lparr>Process := zeroProcess\<lparr>Capabilities := [''CAP_CHOWN'']\<rparr>\<rparr>),
      HostSpecific = False\<rparr>"

definition nofileGenerator :: Generator where
  "nofileGenerator =
     \<lparr>spec = Some (zeroSpec\<lparr>Process := zeroProcess
        \<lparr>Rlimits := [\<lparr>LinuxRlimit.Type = ''RLIMIT_NOFILE'', Hard = 1024, Soft = 1024\<rparr>]\<rparr>\<rparr>),
      HostSpecific = False\<rparr>"

definition pidnetGenerator :: Generator where
  "pidnetGenerator =
     \<lparr>spec = Some (zeroSpec\<lparr>Linux := Some (zeroLinux
        \<lparr>Namespaces := [\<lparr>LinuxNamespace.Type = ''pid'', Path = []\<rparr>,
                        \<lparr>LinuxNamespace.Type = ''network'', Path = []\<rparr>]\<rparr>)\<rparr>),
      HostSpecific = False\<rparr>"

section \<open>Auxiliary facts\<close>

lemma spec_initSpec: "spec (initSpec g) = Some (the_spec g)"
  by (simp add: the_spec_def initSpec_def split: option.splits)

lemma the_spec_initSpec: "the_spec (initSpec g) = the_spec g"
  by (simp add: the_spec_def initSpec_def split: option.splits)

lemma foundBindOption_iff:
  "foundBindOption options \<longleftrightarrow> ''bind'' \<in> set options \<or> ''rbind'' \<in> set options"
  by (induction options) auto

lemma firstIndex_None_iff: "firstIndex P xs = None \<longleftrightarrow> (\<forall>x\<in>set xs. \<not> P x)"
  by (induction xs) auto

lemma firstIndex_Some:
  "firstIndex P xs = Some i \<Longrightarrow> i < length xs \<and> P (xs ! i) \<and> (\<forall>j<i. \<not> P (xs ! j))"
proof (induction xs arbitrary: i)
  case Nil
  then show ?case by simp
next
  case (Cons x xs)
  show ?case
  proof (cases "P x")
    case True
    with Cons.prems show ?thesis by simp
  next
    case False
    with Cons.prems obtain k where k: "firstIndex P xs = Some k" "i = Suc k"
      by auto
    from Cons.IH [OF k(1)] False k(2) show ?thesis
      by (auto simp: less_Suc_eq_0_disj)
  qed
qed

lemma firstIndex_Some_ex: "(\<exists>x\<in>set xs. P x) \<Longrightarrow> \<exists>i. firstIndex P xs = Some i"
  using firstIndex_None_iff [of P xs] by (cases "firstIndex P xs") auto

lemma initSpec_update: "(initSpec g)\<lparr>spec := x\<rparr> = g\<lparr>spec := x\<rparr>"
  by (simp add: initSpec_def split: option.splits)

lemma bindOptions_eq:
  "bindOptions opts =
     (if opts = [] then [''rw'', ''bind'']
      else if ''bind'' \<in> set opts \<or> ''rbind'' \<in> set opts then opts
      else opts @ [''bind''])"
  by (simp add: bindOptions_def foundBindOption_iff)

lemma the_spec_update: "the_spec (g\<lparr>spec := Some s\<rparr>) = s"
  by (simp add: the_spec_def)

lemma distinct_map_update:
  "distinct (map f xs) \<Longrightarrow> i < length xs \<Longrightarrow> f y = f (xs ! i) \<Longrightarrow>
   distinct (map f (xs[i := y]))"
  by (simp add: map_update list_update_same_conv [THEN iffD2])

lemma filter_unique_update:
  "distinct (map f xs) \<Longrightarrow> i < length xs \<Longrightarrow> f (xs ! i) = k \<Longrightarrow> f y = k \<Longrightarrow>
   filter (\<lambda>x. f x = k) (xs[i := y]) = [y]"
proof (induction xs arbitrary: i)
  case Nil
  then show ?case by simp
next
  case (Cons x xs)
  show ?case
  proof (cases i)
    case 0
    with Cons.prems have "\<forall>z\<in>set xs. f z \<noteq> k" by (fastforce simp: image_iff)
    then have "filter (\<lambda>x. f x = k) xs = []" by (simp add: filter_empty_conv)
    with 0 Cons.prems show ?thesis by simp
  next
    case (Suc j)
    with Cons.prems have j: "j < length xs" "f (xs ! j) = k" by auto
    with Cons.prems have "f x \<noteq> k" by (metis distinct.simps(2) list.simps(9) nth_mem image_eqI set_map)
    moreover from Cons.prems have "distinct (map f xs)" by simp
    ultimately show ?thesis using Cons.IH [OF _ j Cons.prems(4)] Suc by simp
  qed
qed

lemma AddProcessRlimits_found:
  assumes "firstIndex (\<lambda>r. LinuxRlimit.Type r = t) (Rlimits (Process (the_spec g))) = Some i"
  shows "AddProcessRlimits t h s g =
     g\<lparr>spec := Some ((the_spec g)\<lparr>Process := (Process (the_spec g))
        \<lparr>Rlimits := (Rlimits (Process (the_spec g)))
           [i := (Rlimits (Process (the_spec g)) ! i)\<lparr>Hard := h, Soft := s\<rparr>]\<rparr>\<rparr>)\<rparr>"
  using assms by (simp add: AddProcessRlimits_def Let_def the_spec_initSpec initSpec_update)

lemma AddProcessRlimits_new:
  assumes "firstIndex (\<lambda>r. LinuxRlimit.Type r = t) (Rlimits (Process (the_spec g))) = None"
  shows "AddProcessRlimits t h s g =
     g\<lparr>spec := Some ((the_spec g)\<lparr>Process := (Process (the_spec g))
        \<lparr>Rlimits := Rlimits (Process (the_spec g)) @
           [\<lparr>LinuxRlimit.Type = t, Hard = h, Soft = s\<rparr>]\<rparr>\<rparr>)\<rparr>"
  using assms by (simp add: AddProcessRlimits_def Let_def the_spec_initSpec initSpec_update)

lemma AddProcessRlimits_distinct:
  assumes "distinct (map LinuxRlimit.Type (Rlimits (Process (the_spec g))))"
  shows "distinct (map LinuxRlimit.Type (Rlimits (Process (the_spec (AddProcessRlimits t h s g)))))"
proof (cases "firstIndex (\<lambda>r. LinuxRlimit.Type r = t) (Rlimits (Process (the_spec g)))")
  case None
  then have "\<forall>r\<in>set (Rlimits (Process (the_spec g))). LinuxRlimit.Type r \<noteq> t"
    by (simp add: firstIndex_None_iff)
  with assms show ?thesis
    unfolding AddProcessRlimits_new [OF None] by (auto simp: the_spec_update)
next
  case (Some i)
  from firstIndex_Some [OF Some] assms show ?thesis
    unfolding AddProcessRlimits_found [OF Some]
    by (simp add: the_spec_update distinct_map_update)
qed

lemma RemoveProcessRlimits_found:
  assumes "spec g = Some d"
    and "firstIndex (\<lambda>r. LinuxRlimit.Type r = t) (Rlimits (Process d)) = Some i"
  shows "RemoveProcessRlimits t g =
     (g\<lparr>spec := Some (d\<lparr>Process := (Process d)
        \<lparr>Rlimits := take i (Rlimits (Process d)) @ drop (Suc i) (Rlimits (Process d))\<rparr>\<rparr>)\<rparr>, None)"
  using assms by (simp add: RemoveProcessRlimits_def removeAt_def)

lemma RemoveProcessRlimits_absent:
  assumes "\<forall>r\<in>set (Rlimits (Process (the_spec g))). LinuxRlimit.Type r \<noteq> t"
  shows "RemoveProcessRlimits t g = (g, None)"
  using assms
  by (auto simp: RemoveProcessRlimits_def the_spec_def firstIndex_None_iff [symmetric]
      split: option.splits)
lemma distinct_removeAt: "distinct ys \<Longrightarrow> distinct (take i ys @ drop (Suc i) ys)"
  by (simp add: set_take_disj_set_drop_if_distinct)

lemma distinct_map_removeAt:
  assumes "distinct (map f xs)"
  shows "distinct (map f (take i xs @ drop (Suc i) xs))"
proof -
  have "map f (take i xs @ drop (Suc i) xs) = take i (map f xs) @ drop (Suc i) (map f xs)"
    by (simp add: take_map drop_map)
  moreover from assms have "distinct (take i (map f xs) @ drop (Suc i) (map f xs))"
    by (rule distinct_removeAt)
  ultimately show ?thesis by (simp only:)
qed

lemma RemoveProcessRlimits_distinct:
  assumes "distinct (map LinuxRlimit.Type (Rlimits (Process (the_spec g))))"
  shows "distinct (map LinuxRlimit.Type (Rlimits (Process (the_spec (fst (RemoveProcessRlimits t g))))))"
proof (cases "spec g")
  case None
  with assms show ?thesis by (simp add: RemoveProcessRlimits_def)
next
  case d: (Some d)
  show ?thesis
  proof (cases "firstIndex (\<lambda>r. LinuxRlimit.Type r = t) (Rlimits (Process d))")
    case None
    with d assms show ?thesis by (simp add: RemoveProcessRlimits_def)
  next
    case (Some i)
    from assms d have "distinct (map LinuxRlimit.Type (Rlimits (Process d)))"
      by (simp add: the_spec_def)
    from distinct_map_removeAt [OF this, of i] show ?thesis
      by (simp add: RemoveProcessRlimits_found [OF d Some] the_spec_update)
  qed
qed

lemma mapStrToNamespace_known:
  "k \<in> set Namespaces_names \<Longrightarrow> mapStrToNamespace k p = (\<lparr>LinuxNamespace.Type = k, Path = p\<rparr>, None)"
  by (auto simp: Namespaces_names_def mapStrToNamespace_def NetworkNamespace_def PIDNamespace_def
      MountNamespace_def IPCNamespace_def UTSNamespace_def UserNamespace_def CgroupNamespace_def)

lemma mapStrToNamespace_unknown:
  "k \<notin> set Namespaces_names \<Longrightarrow>
   mapStrToNamespace k p = (\<lparr>LinuxNamespace.Type = [], Path = []\<rparr>, Some (Errorf ''Should not reach here!''))"
  by (simp add: Namespaces_names_def mapStrToNamespace_def)

lemma spec_initSpecLinux:
  "spec (initSpecLinux g) = Some ((the_spec g)\<lparr>Linux := Some (the_linux (the_spec g))\<rparr>)"
  by (simp add: initSpecLinux_def Let_def the_spec_initSpec the_linux_def spec_initSpec
      split: option.splits)

lemma the_spec_initSpecLinux:
  "the_spec (initSpecLinux g) = (the_spec g)\<lparr>Linux := Some (the_linux (the_spec g))\<rparr>"
  using spec_initSpecLinux [of g] by (simp add: the_spec_def)

lemma initSpecLinux_update: "(initSpecLinux g)\<lparr>spec := x\<rparr> = g\<lparr>spec := x\<rparr>"
  by (simp add: initSpecLinux_def Let_def initSpec_update split: option.splits)

lemma the_linux_Some: "the_linux (s\<lparr>Linux := Some l\<rparr>) = l"
  by (simp add: the_linux_def)

lemma AddOrReplace_found:
  assumes "k \<in> set Namespaces_names"
    and "firstIndex (\<lambda>n. LinuxNamespace.Type n = k) (namespaces_of g) = Some i"
  shows "AddOrReplaceLinuxNamespace k p g =
     (g\<lparr>spec := Some ((the_spec g)\<lparr>Linux := Some ((the_linux (the_spec g))
        \<lparr>Namespaces := (namespaces_of g)[i := \<lparr>LinuxNamespace.Type = k, Path = p\<rparr>]\<rparr>)\<rparr>)\<rparr>, None)"
  using assms(2)
  by (simp add: AddOrReplaceLinuxNamespace_def mapStrToNamespace_known [OF assms(1)] Let_def
      the_spec_initSpecLinux the_linux_Some initSpecLinux_update)

lemma AddOrReplace_new:
  assumes "k \<in> set Namespaces_names"
    and "firstIndex (\<lambda>n. LinuxNamespace.Type n = k) (namespaces_of g) = None"
  shows "AddOrReplaceLinuxNamespace k p g =
     (g\<lparr>spec := Some ((the_spec g)\<lparr>Linux := Some ((the_linux (the_spec g))
        \<lparr>Namespaces := namespaces_of g @ [\<lparr>LinuxNamespace.Type = k, Path = p\<rparr>]\<rparr>)\<rparr>)\<rparr>, None)"
  using assms(2)
  by (simp add: AddOrReplaceLinuxNamespace_def mapStrToNamespace_known [OF assms(1)] Let_def
      the_spec_initSpecLinux the_linux_Some initSpecLinux_update)

lemma AddOrReplace_once:
  assumes k: "k \<in> set Namespaces_names"
    and d: "distinct (map LinuxNamespace.Type (namespaces_of g))"
  shows "distinct (map LinuxNamespace.Type (namespaces_of (fst (AddOrReplaceLinuxNamespace k p g)))) \<and>
         filter (\<lambda>n. LinuxNamespace.Type n = k) (namespaces_of (fst (AddOrReplaceLinuxNamespace k p g))) =
           [\<lparr>LinuxNamespace.Type = k, Path = p\<rparr>]"
proof (cases "firstIndex (\<lambda>n. LinuxNamespace.Type n = k) (namespaces_of g)")
  case None
  then have "\<forall>n\<in>set (namespaces_of g). LinuxNamespace.Type n \<noteq> k"
    by (simp add: firstIndex_None_iff)
  with d show ?thesis
    unfolding AddOrReplace_new [OF k None]
    by (auto simp: the_spec_update the_linux_Some filter_empty_conv)
next
  case (Some i)
  from firstIndex_Some [OF Some] d show ?thesis
    unfolding AddOrReplace_found [OF k Some]
    by (simp add: the_spec_update the_linux_Some distinct_map_update
        filter_unique_update [where f = LinuxNamespace.Type])
qed

lemma AddOrReplace_error_iff:
  "snd (AddOrReplaceLinuxNamespace k p g) \<noteq> None \<longleftrightarrow> k \<notin> set Namespaces_names"
proof (cases "k \<in> set Namespaces_names")
  case True
  then show ?thesis
    by (simp add: AddOrReplaceLinuxNamespace_def mapStrToNamespace_known Let_def
        split: option.splits)
next
  case False
  then show ?thesis
    by (simp add: AddOrReplaceLinuxNamespace_def mapStrToNamespace_unknown)
qed

lemma Remove_error_iff:
  "snd (RemoveLinuxNamespace k g) \<noteq> None \<longleftrightarrow> k \<notin> set Namespaces_names"
proof (cases "k \<in> set Namespaces_names")
  case True
  then show ?thesis
    by (simp add: RemoveLinuxNamespace_def mapStrToNamespace_known split: option.splits)
next
  case False
  then show ?thesis
    by (simp add: RemoveLinuxNamespace_def mapStrToNamespace_unknown)
qed

lemma Remove_absent:
  assumes "k \<in> set Namespaces_names"
    and "spec g = None \<or> Linux (the_spec g) = None \<or>
         (\<forall>n\<in>set (namespaces_of g). LinuxNamespace.Type n \<noteq> k)"
  shows "RemoveLinuxNamespace k g = (g, None)"
proof (cases "spec g")
  case None
  then show ?thesis
    by (simp add: RemoveLinuxNamespace_def mapStrToNamespace_known [OF assms(1)])
next
  case (Some s)
  show ?thesis
  proof (cases "Linux s")
    case None
    with Some show ?thesis
      by (simp add: RemoveLinuxNamespace_def mapStrToNamespace_known [OF assms(1)])
  next
    case (Some l)
    with \<open>spec g = Some s\<close> assms(2)
    have "firstIndex (\<lambda>n. LinuxNamespace.Type n = k) (Namespaces l) = None"
      by (simp add: the_spec_def the_linux_def firstIndex_None_iff)
    with Some \<open>spec g = Some s\<close> show ?thesis
      by (simp add: RemoveLinuxNamespace_def mapStrToNamespace_known [OF assms(1)])
  qed
qed
lemma checkCapLoop_find:
  "checkCapLoop ToUpper reg cp hs caps =
     (case find (\<lambda>cap. cp = ToUpper (Cap_String reg cap)) caps of
        None \<Rightarrow> Inr False
      | Some cap \<Rightarrow>
          if hs \<and> lastCap reg < cap
          then Inl (Errorf (''CAP_'' @ cp @ '' is not supported on the current host''))
          else Inr True)"
  by (induction caps) auto

lemma checkCap_find:
  "checkCap ToUpper reg c hs =
     (case find (\<lambda>cap. ToUpper c = ToUpper (Cap_String reg cap)) (capability_List reg) of
        None \<Rightarrow> Some (Errorf ''Invalid value passed for adding capability'')
      | Some cap \<Rightarrow>
          if hs \<and> lastCap reg < cap
          then Some (Errorf (''CAP_'' @ ToUpper c @ '' is not supported on the current host''))
          else None)"
  by (simp add: checkCap_def checkCapLoop_find split: option.splits)

lemma capabilities_nonempty_spec:
  "capabilities_of g \<noteq> [] \<Longrightarrow> initSpec g = g"
  by (cases "spec g") (auto simp: the_spec_def zeroSpec_def zeroProcess_def initSpec_def)

lemma find_chown:
  "find (\<lambda>cap. asciiToUpper ''chown'' = asciiToUpper (Cap_String sampleRegistry cap)) (capability_List sampleRegistry) = Some 0"
  "find (\<lambda>cap. asciiToUpper ''CHOWN'' = asciiToUpper (Cap_String sampleRegistry cap)) (capability_List sampleRegistry) = Some 0"
  "find (\<lambda>cap. asciiToUpper ''CAP_CHOWN'' = asciiToUpper (Cap_String sampleRegistry cap)) (capability_List sampleRegistry) = None"
  by code_simp+

lemma asciiToUpper_chown:
  "asciiToUpper ''chown'' = ''CHOWN''" "asciiToUpper ''CHOWN'' = ''CHOWN''"
  "asciiToUpper ''CAP_CHOWN'' = ''CAP_CHOWN''"
  by code_simp+

lemma finalCapList_eq:
  "finalCapList ToUpper reg hs caps =
     map (\<lambda>cap. ''CAP_'' @ ToUpper (Cap_String reg cap))
       (filter (\<lambda>cap. \<not> (hs \<and> lastCap reg < cap)) caps)"
  by (induction caps) auto

lemma lastCap_sample: "lastCap sampleRegistry = 36"
  by (simp add: lastCap_def sampleRegistry_def)

lemma spec_update_same: "spec g = Some s \<Longrightarrow> g\<lparr>spec := Some s\<rparr> = g"
  by (cases g) simp

lemma find_audit_read:
  "find (\<lambda>cap. asciiToUpper ''audit_read'' = asciiToUpper (Cap_String sampleRegistry cap))
     (capability_List sampleRegistry) = Some 37"
  "\<forall>cap\<in>set (capability_List sampleRegistry). asciiToUpper (Cap_String sampleRegistry cap) \<noteq> asciiToUpper ''CAP_CHOWN''"
  "asciiToUpper ''audit_read'' = ''AUDIT_READ''"
  by code_simp+

lemma rlimits_of_nofile:
  "rlimits_of nofileGenerator = [\<lparr>LinuxRlimit.Type = ''RLIMIT_NOFILE'', Hard = 1024, Soft = 1024\<rparr>]"
  by (simp add: nofileGenerator_def the_spec_def)

lemma namespaces_of_pidnet:
  "namespaces_of pidnetGenerator =
     [\<lparr>LinuxNamespace.Type = ''pid'', Path = []\<rparr>, \<lparr>LinuxNamespace.Type = ''network'', Path = []\<rparr>]"
  by (simp add: pidnetGenerator_def the_spec_def the_linux_def)

section \<open>Capabilities: adding, dropping, privileged mode\<close>

text \<open>
  C1, as the code has it. \<open>AddProcessCapability c\<close> compares the upper-cased token with
  the upper-cased names of the registry, which carry no prefix; a token that matches no
  name is refused and the generator stays as it is. For a token that passes, the entry
  is \<^verbatim>\<open>CAP_\<close> followed by the upper-cased token, the prefix being put in front in every
  case: when an entry whose upper-casing equals it is in the list already, the call
  succeeds and changes nothing; otherwise the entry is appended after the entries that
  are there. (\<open>cap\<close> is the first capability of the registry that the token names.)
\<close>

theorem C1_AddProcessCapability:
  "(find (\<lambda>cap. ToUpper c = ToUpper (Cap_String reg cap)) (capability_List reg) = None \<longrightarrow>
      AddProcessCapability ToUpper reg c g =
        (g, Some (Errorf ''Invalid value passed for adding capability''))) \<and>
   (find (\<lambda>cap. ToUpper c = ToUpper (Cap_String reg cap)) (capability_List reg) = Some cap \<and>
      \<not> (HostSpecific g \<and> lastCap reg < cap) \<longrightarrow>
      ((\<exists>x\<in>set (capabilities_of g). ToUpper x = ''CAP_'' @ ToUpper c) \<longrightarrow>
         AddProcessCapability ToUpper reg c g = (g, None)) \<and>
      ((\<forall>x\<in>set (capabilities_of g). ToUpper x \<noteq> ''CAP_'' @ ToUpper c) \<longrightarrow>
         AddProcessCapability ToUpper reg c g =
           (g\<lparr>spec := Some ((the_spec g)\<lparr>Process := (Process (the_spec g))
              \<lparr>Capabilities := capabilities_of g @ [''CAP_'' @ ToUpper c]\<rparr>\<rparr>)\<rparr>, None)))"
proof (intro conjI impI)
  assume "find (\<lambda>cap. ToUpper c = ToUpper (Cap_String reg cap)) (capability_List reg) = None"
  then show "AddProcessCapability ToUpper reg c g =
        (g, Some (Errorf ''Invalid value passed for adding capability''))"
    by (simp add: AddProcessCapability_def checkCap_find)
next
  assume "find (\<lambda>cap. ToUpper c = ToUpper (Cap_String reg cap)) (capability_List reg) = Some cap \<and>
      \<not> (HostSpecific g \<and> lastCap reg < cap)"
  then have ok: "checkCap ToUpper reg c (HostSpecific g) = None"
    by (auto simp: checkCap_find)
  assume ex: "\<exists>x\<in>set (capabilities_of g). ToUpper x = ''CAP_'' @ ToUpper c"
  then obtain i where
    "firstIndex (\<lambda>cap. ToUpper cap = ''CAP_'' @ ToUpper c) (capabilities_of g) = Some i"
    using firstIndex_Some_ex [of "capabilities_of g" "\<lambda>cap. ToUpper cap = ''CAP_'' @ ToUpper c"]
    by blast
  moreover from ex have "initSpec g = g"
    by (intro capabilities_nonempty_spec) auto
  ultimately show "AddProcessCapability ToUpper reg c g = (g, None)"
    by (simp add: AddProcessCapability_def ok Let_def)
next
  assume "find (\<lambda>cap. ToUpper c = ToUpper (Cap_String reg cap)) (capability_List reg) = Some cap \<and>
      \<not> (HostSpecific g \<and> lastCap reg < cap)"
  then have ok: "checkCap ToUpper reg c (HostSpecific g) = None"
    by (auto simp: checkCap_find)
  assume "\<forall>x\<in>set (capabilities_of g). ToUpper x \<noteq> ''CAP_'' @ ToUpper c"
  then have "firstIndex (\<lambda>cap. ToUpper cap = ''CAP_'' @ ToUpper c) (capabilities_of g) = None"
    by (simp add: firstIndex_None_iff)
  then show "AddProcessCapability ToUpper reg c g =
           (g\<lparr>spec := Some ((the_spec g)\<lparr>Process := (Process (the_spec g))
              \<lparr>Capabilities := capabilities_of g @ [''CAP_'' @ ToUpper c]\<rparr>\<rparr>)\<rparr>, None)"
    by (simp add: AddProcessCapability_def ok Let_def the_spec_initSpec initSpec_update)
qed

text \<open>
  C1 as stated fails: after "chown" and "CHOWN", the token "CAP_CHOWN" is refused. The
  upper-cased token \<^verbatim>\<open>CAP_CHOWN\<close> is no name of the registry, whose names have no
  prefix.
\<close>

theorem C1_CAP_prefix_counterexample:
  "snd (AddProcessCapability asciiToUpper sampleRegistry ''CAP_CHOWN''
     (fst (AddProcessCapability asciiToUpper sampleRegistry ''CHOWN''
       (fst (AddProcessCapability asciiToUpper sampleRegistry ''chown'' \<lparr>spec = None, HostSpecific = False\<rparr>)))))
   = Some (Errorf ''Invalid value passed for adding capability'')"
  by code_simp

text \<open>
  The example of the specification: "chown" adds \<^verbatim>\<open>CAP_CHOWN\<close>, "CHOWN" then changes
  nothing, and "CAP_CHOWN" is refused.
\<close>

theorem C1_AddProcessCapability_witness:
  "AddProcessCapability asciiToUpper sampleRegistry ''chown'' \<lparr>spec = Some zeroSpec, HostSpecific = False\<rparr> =
     (chownGenerator, None) \<and>
   AddProcessCapability asciiToUpper sampleRegistry ''CHOWN'' chownGenerator = (chownGenerator, None) \<and>
   AddProcessCapability asciiToUpper sampleRegistry ''CAP_CHOWN'' chownGenerator =
     (chownGenerator, Some (Errorf ''Invalid value passed for adding capability''))"
proof (intro conjI)
  let ?g0 = "\<lparr>spec = Some zeroSpec, HostSpecific = False\<rparr>"
  have "\<forall>x\<in>set (capabilities_of ?g0). asciiToUpper x \<noteq> ''CAP_'' @ asciiToUpper ''chown''"
    by (simp add: the_spec_def zeroSpec_def zeroProcess_def)
  with C1_AddProcessCapability [where ToUpper = asciiToUpper and c = "''chown''" and reg = sampleRegistry and cap = 0 and g = ?g0] find_chown(1)
  have "AddProcessCapability asciiToUpper sampleRegistry ''chown'' ?g0 =
     (?g0\<lparr>spec := Some ((the_spec ?g0)\<lparr>Process := (Process (the_spec ?g0))
        \<lparr>Capabilities := capabilities_of ?g0 @ [''CAP_'' @ asciiToUpper ''chown'']\<rparr>\<rparr>)\<rparr>, None)"
    by simp
  then show "AddProcessCapability asciiToUpper sampleRegistry ''chown'' ?g0 = (chownGenerator, None)"
    by (simp add: asciiToUpper_chown chownGenerator_def the_spec_def zeroSpec_def zeroProcess_def)
next
  have "\<exists>x\<in>set (capabilities_of chownGenerator). asciiToUpper x = ''CAP_'' @ asciiToUpper ''CHOWN''"
    by (simp add: asciiToUpper_chown chownGenerator_def the_spec_def)
  with C1_AddProcessCapability [where ToUpper = asciiToUpper and c = "''CHOWN''" and reg = sampleRegistry and cap = 0 and g = chownGenerator] find_chown(2)
  show "AddProcessCapability asciiToUpper sampleRegistry ''CHOWN'' chownGenerator = (chownGenerator, None)"
    by (simp add: chownGenerator_def)
next
  from C1_AddProcessCapability [where ToUpper = asciiToUpper and c = "''CAP_CHOWN''" and reg = sampleRegistry and cap = 0 and g = chownGenerator] find_chown(3)
  show "AddProcessCapability asciiToUpper sampleRegistry ''CAP_CHOWN'' chownGenerator =
     (chownGenerator, Some (Errorf ''Invalid value passed for adding capability''))"
    by simp
qed

text \<open>
  C9. \<open>DropProcessCapability c\<close> checks the token before it removes anything. A token
  that matches no name of the registry is refused, and so is, on a host-specific
  generator, a token whose capability lies above \<open>lastCap\<close>; in both cases the
  generator stays as it is, whatever its capability list holds.
\<close>

theorem C9_DropProcessCapability:
  "((\<forall>cap\<in>set (capability_List reg). ToUpper (Cap_String reg cap) \<noteq> ToUpper c) \<longrightarrow>
      DropProcessCapability ToUpper reg c g =
        (g, Some (Errorf ''Invalid value passed for adding capability''))) \<and>
   (HostSpecific g \<and>
    find (\<lambda>cap. ToUpper c = ToUpper (Cap_String reg cap)) (capability_List reg) = Some cap \<and>
    lastCap reg < cap \<longrightarrow>
      DropProcessCapability ToUpper reg c g =
        (g, Some (Errorf (''CAP_'' @ ToUpper c @ '' is not supported on the current host''))))"
proof (intro conjI impI)
  assume "\<forall>cap\<in>set (capability_List reg). ToUpper (Cap_String reg cap) \<noteq> ToUpper c"
  then have "find (\<lambda>cap. ToUpper c = ToUpper (Cap_String reg cap)) (capability_List reg) = None"
    by (auto simp: find_None_iff)
  then show "DropProcessCapability ToUpper reg c g =
        (g, Some (Errorf ''Invalid value passed for adding capability''))"
    by (simp add: DropProcessCapability_def checkCap_find)
next
  assume "HostSpecific g \<and>
    find (\<lambda>cap. ToUpper c = ToUpper (Cap_String reg cap)) (capability_List reg) = Some cap \<and>
    lastCap reg < cap"
  then show "DropProcessCapability ToUpper reg c g =
        (g, Some (Errorf (''CAP_'' @ ToUpper c @ '' is not supported on the current host'')))"
    by (simp add: DropProcessCapability_def checkCap_find)
qed

text \<open>
  Both refusals with a matching entry in the list: \<^verbatim>\<open>CAP_CHOWN\<close> is there and the
  token "CAP_CHOWN" is unknown; \<^verbatim>\<open>CAP_AUDIT_READ\<close> is there and capability 37 is above
  the last capability 36 of the host.
\<close>

theorem C9_DropProcessCapability_witness:
  "DropProcessCapability asciiToUpper sampleRegistry ''CAP_CHOWN'' chownGenerator =
     (chownGenerator, Some (Errorf ''Invalid value passed for adding capability'')) \<and>
   DropProcessCapability asciiToUpper sampleRegistry ''audit_read''
     \<lparr>spec = Some (zeroSpec\<lparr>Process := zeroProcess\<lparr>Capabilities := [''CAP_AUDIT_READ'']\<rparr>\<rparr>),
      HostSpecific = True\<rparr> =
     (\<lparr>spec = Some (zeroSpec\<lparr>Process := zeroProcess\<lparr>Capabilities := [''CAP_AUDIT_READ'']\<rparr>\<rparr>),
       HostSpecific = True\<rparr>,
      Some (Errorf ''CAP_AUDIT_READ is not supported on the current host''))"
  using C9_DropProcessCapability [where ToUpper = asciiToUpper and reg = sampleRegistry and c = "''CAP_CHOWN''"
      and g = chownGenerator and cap = 0]
    C9_DropProcessCapability [where ToUpper = asciiToUpper and reg = sampleRegistry and c = "''audit_read''" and cap = 37
      and g = "\<lparr>spec = Some (zeroSpec\<lparr>Process := zeroProcess\<lparr>Capabilities := [''CAP_AUDIT_READ'']\<rparr>\<rparr>),
        HostSpecific = True\<rparr>"]
    find_audit_read(1,2)
  by (simp add: find_audit_read(3) lastCap_sample)

text \<open>
  C2, as the code has it. \<open>SetupPrivileged True\<close> first allocates a missing document and
  a missing Linux subtree with zero values. It then replaces the capability list by
  \<^verbatim>\<open>CAP_\<close> plus the upper-cased name of every capability of the registry (on a
  host-specific generator, of every capability not above \<open>lastCap\<close>), empties the
  SELinux label and the AppArmor profile and removes the syscall filter; every other
  field keeps its value. \<open>SetupPrivileged False\<close> returns the generator as it is.
\<close>

theorem C2_SetupPrivileged:
  "SetupPrivileged ToUpper reg True g =
     g\<lparr>spec := Some ((the_spec g)
        \<lparr>Process := (Process (the_spec g))
           \<lparr>Capabilities :=
              map (\<lambda>cap. ''CAP_'' @ ToUpper (Cap_String reg cap))
                (filter (\<lambda>cap. \<not> (HostSpecific g \<and> lastCap reg < cap)) (capability_List reg)),
            SelinuxLabel := [], ApparmorProfile := []\<rparr>,
         Linux := Some ((the_linux (the_spec g))\<lparr>Linux.Seccomp := None\<rparr>)\<rparr>)\<rparr> \<and>
   SetupPrivileged ToUpper reg False g = g"
  by (simp add: SetupPrivileged_def Let_def finalCapList_eq the_spec_initSpecLinux
      initSpecLinux_update the_linux_def)

text \<open>
  C2 as stated fails: a fifth field changes. On a document without a Linux subtree,
  \<open>SetupPrivileged True\<close> leaves the field \<^verbatim>\<open>Linux\<close> allocated.
\<close>

theorem C2_Linux_allocated_counterexample:
  "Linux (the_spec \<lparr>spec = Some zeroSpec, HostSpecific = False\<rparr>) = None \<and>
   Linux (the_spec (SetupPrivileged asciiToUpper sampleRegistry True \<lparr>spec = Some zeroSpec, HostSpecific = False\<rparr>))
     = Some zeroLinux"
  by (simp add: SetupPrivileged_def Let_def initSpecLinux_def initSpec_def the_spec_def
      the_linux_def zeroSpec_def zeroLinux_def)

text \<open>
  On a host-specific generator without a document, every capability up to
  \<^verbatim>\<open>CAP_BLOCK_SUSPEND\<close> is granted and \<^verbatim>\<open>CAP_AUDIT_READ\<close> is not.
\<close>

theorem C2_SetupPrivileged_witness:
  "capabilities_of (SetupPrivileged asciiToUpper sampleRegistry True \<lparr>spec = None, HostSpecific = True\<rparr>) =
     [''CAP_CHOWN'', ''CAP_DAC_OVERRIDE'', ''CAP_DAC_READ_SEARCH'', ''CAP_FOWNER'', ''CAP_FSETID'',
      ''CAP_KILL'', ''CAP_SETGID'', ''CAP_SETUID'', ''CAP_SETPCAP'', ''CAP_LINUX_IMMUTABLE'',
      ''CAP_NET_BIND_SERVICE'', ''CAP_NET_BROADCAST'', ''CAP_NET_ADMIN'', ''CAP_NET_RAW'',
      ''CAP_IPC_LOCK'', ''CAP_IPC_OWNER'', ''CAP_SYS_MODULE'', ''CAP_SYS_RAWIO'',
      ''CAP_SYS_CHROOT'', ''CAP_SYS_PTRACE'', ''CAP_SYS_PACCT'', ''CAP_SYS_ADMIN'',
      ''CAP_SYS_BOOT'', ''CAP_SYS_NICE'', ''CAP_SYS_RESOURCE'', ''CAP_SYS_TIME'',
      ''CAP_SYS_TTY_CONFIG'', ''CAP_MKNOD'', ''CAP_LEASE'', ''CAP_AUDIT_WRITE'',
      ''CAP_AUDIT_CONTROL'', ''CAP_SETFCAP'', ''CAP_MAC_OVERRIDE'', ''CAP_MAC_ADMIN'',
      ''CAP_SYSLOG'', ''CAP_WAKE_ALARM'', ''CAP_BLOCK_SUSPEND'']"
proof -
  have "map (\<lambda>cap. ''CAP_'' @ asciiToUpper (Cap_String sampleRegistry cap))
          (filter (\<lambda>cap. \<not> (True \<and> lastCap sampleRegistry < cap)) (capability_List sampleRegistry)) =
     [''CAP_CHOWN'', ''CAP_DAC_OVERRIDE'', ''CAP_DAC_READ_SEARCH'', ''CAP_FOWNER'', ''CAP_FSETID'',
      ''CAP_KILL'', ''CAP_SETGID'', ''CAP_SETUID'', ''CAP_SETPCAP'', ''CAP_LINUX_IMMUTABLE'',
      ''CAP_NET_BIND_SERVICE'', ''CAP_NET_BROADCAST'', ''CAP_NET_ADMIN'', ''CAP_NET_RAW'',
      ''CAP_IPC_LOCK'', ''CAP_IPC_OWNER'', ''CAP_SYS_MODULE'', ''CAP_SYS_RAWIO'',
      ''CAP_SYS_CHROOT'', ''CAP_SYS_PTRACE'', ''CAP_SYS_PACCT'', ''CAP_SYS_ADMIN'',
      ''CAP_SYS_BOOT'', ''CAP_SYS_NICE'', ''CAP_SYS_RESOURCE'', ''CAP_SYS_TIME'',
      ''CAP_SYS_TTY_CONFIG'', ''CAP_MKNOD'', ''CAP_LEASE'', ''CAP_AUDIT_WRITE'',
      ''CAP_AUDIT_CONTROL'', ''CAP_SETFCAP'', ''CAP_MAC_OVERRIDE'', ''CAP_MAC_ADMIN'',
      ''CAP_SYSLOG'', ''CAP_WAKE_ALARM'', ''CAP_BLOCK_SUSPEND'']"
    by code_simp
  with C2_SetupPrivileged [where ToUpper = asciiToUpper and reg = sampleRegistry
      and g = "\<lparr>spec = None, HostSpecific = True\<rparr>"]
  show ?thesis by (simp add: the_spec_def)
qed

section \<open>Namespaces\<close>

text \<open>
  C3. \<open>AddOrReplaceLinuxNamespace\<close> and \<open>RemoveLinuxNamespace\<close> return an error exactly
  when the kind is none of the seven names, and then the generator stays as it is. For
  one of the seven names, \<open>RemoveLinuxNamespace\<close> succeeds and changes nothing when the
  document, its Linux subtree or an entry of that kind is missing.
\<close>

theorem C3_namespace_kinds:
  "(snd (AddOrReplaceLinuxNamespace k path g) \<noteq> None \<longleftrightarrow> k \<notin> set Namespaces_names) \<and>
   (snd (RemoveLinuxNamespace k g) \<noteq> None \<longleftrightarrow> k \<notin> set Namespaces_names) \<and>
   (k \<notin> set Namespaces_names \<longrightarrow>
      AddOrReplaceLinuxNamespace k path g = (g, Some (Errorf ''Should not reach here!'')) \<and>
      RemoveLinuxNamespace k g = (g, Some (Errorf ''Should not reach here!''))) \<and>
   (k \<in> set Namespaces_names \<and>
    (spec g = None \<or> Linux (the_spec g) = None \<or>
     (\<forall>n\<in>set (namespaces_of g). LinuxNamespace.Type n \<noteq> k)) \<longrightarrow>
      RemoveLinuxNamespace k g = (g, None))"
  using AddOrReplace_error_iff [of k path g] Remove_error_iff [of k g] Remove_absent [of k g]
  by (auto simp: AddOrReplaceLinuxNamespace_def RemoveLinuxNamespace_def mapStrToNamespace_unknown)

text \<open>
  An unknown kind, a known kind without entry, and a known kind on a document without
  Linux subtree.
\<close>

theorem C3_namespace_kinds_witness:
  "AddOrReplaceLinuxNamespace ''bogus'' ''/p'' pidnetGenerator =
     (pidnetGenerator, Some (Errorf ''Should not reach here!'')) \<and>
   RemoveLinuxNamespace ''bogus'' pidnetGenerator =
     (pidnetGenerator, Some (Errorf ''Should not reach here!'')) \<and>
   RemoveLinuxNamespace ''user'' pidnetGenerator = (pidnetGenerator, None) \<and>
   RemoveLinuxNamespace ''pid'' \<lparr>spec = Some zeroSpec, HostSpecific = False\<rparr> =
     (\<lparr>spec = Some zeroSpec, HostSpecific = False\<rparr>, None)"
proof -
  have k: "''bogus'' \<notin> set Namespaces_names" "''user'' \<in> set Namespaces_names"
    "''pid'' \<in> set Namespaces_names"
    by (simp_all add: Namespaces_names_def)
  have u: "\<forall>n\<in>set (namespaces_of pidnetGenerator). LinuxNamespace.Type n \<noteq> ''user''"
    by (simp add: namespaces_of_pidnet)
  have z: "Linux (the_spec \<lparr>spec = Some zeroSpec, HostSpecific = False\<rparr>) = None"
    by (simp add: the_spec_def zeroSpec_def)
  from k(1) C3_namespace_kinds [where k = "''bogus''" and path = "''/p''" and g = pidnetGenerator]
  have "AddOrReplaceLinuxNamespace ''bogus'' ''/p'' pidnetGenerator =
     (pidnetGenerator, Some (Errorf ''Should not reach here!''))"
    and "RemoveLinuxNamespace ''bogus'' pidnetGenerator =
     (pidnetGenerator, Some (Errorf ''Should not reach here!''))"
    by blast+
  moreover from k(2) u C3_namespace_kinds [where k = "''user''" and g = pidnetGenerator]
  have "RemoveLinuxNamespace ''user'' pidnetGenerator = (pidnetGenerator, None)"
    by blast
  moreover from k(3) z
    C3_namespace_kinds [where k = "''pid''" and g = "\<lparr>spec = Some zeroSpec, HostSpecific = False\<rparr>"]
  have "RemoveLinuxNamespace ''pid'' \<lparr>spec = Some zeroSpec, HostSpecific = False\<rparr> =
     (\<lparr>spec = Some zeroSpec, HostSpecific = False\<rparr>, None)"
    by blast
  ultimately show ?thesis by simp
qed

text \<open>
  C4. For one of the seven kinds: when the namespaces hold an entry of that kind, the
  first one is overwritten where it stands; when they hold none, the new entry is
  appended. From a list with at most one entry of each kind, two calls with the same
  kind both succeed and leave one entry of that kind, with the path of the second call.
\<close>

theorem C4_AddOrReplaceLinuxNamespace:
  "k \<in> set Namespaces_names \<longrightarrow>
     ((\<exists>n\<in>set (namespaces_of g). LinuxNamespace.Type n = k) \<longrightarrow>
        (\<exists>i<length (namespaces_of g). LinuxNamespace.Type (namespaces_of g ! i) = k \<and>
           (\<forall>j<i. LinuxNamespace.Type (namespaces_of g ! j) \<noteq> k) \<and>
           AddOrReplaceLinuxNamespace k p g =
             (g\<lparr>spec := Some ((the_spec g)\<lparr>Linux := Some ((the_linux (the_spec g))
                \<lparr>Namespaces := (namespaces_of g)[i := \<lparr>LinuxNamespace.Type = k, Path = p\<rparr>]\<rparr>)\<rparr>)\<rparr>,
              None))) \<and>
     ((\<forall>n\<in>set (namespaces_of g). LinuxNamespace.Type n \<noteq> k) \<longrightarrow>
        AddOrReplaceLinuxNamespace k p g =
          (g\<lparr>spec := Some ((the_spec g)\<lparr>Linux := Some ((the_linux (the_spec g))
             \<lparr>Namespaces := namespaces_of g @ [\<lparr>LinuxNamespace.Type = k, Path = p\<rparr>]\<rparr>)\<rparr>)\<rparr>,
           None)) \<and>
     (distinct (map LinuxNamespace.Type (namespaces_of g)) \<longrightarrow>
        snd (AddOrReplaceLinuxNamespace k p1 g) = None \<and>
        snd (AddOrReplaceLinuxNamespace k p2 (fst (AddOrReplaceLinuxNamespace k p1 g))) = None \<and>
        filter (\<lambda>n. LinuxNamespace.Type n = k)
          (namespaces_of (fst (AddOrReplaceLinuxNamespace k p2
             (fst (AddOrReplaceLinuxNamespace k p1 g))))) =
          [\<lparr>LinuxNamespace.Type = k, Path = p2\<rparr>])"
proof (intro impI conjI)
  assume k: "k \<in> set Namespaces_names"
  assume "\<exists>n\<in>set (namespaces_of g). LinuxNamespace.Type n = k"
  then obtain i where i: "firstIndex (\<lambda>n. LinuxNamespace.Type n = k) (namespaces_of g) = Some i"
    using firstIndex_Some_ex [of "namespaces_of g" "\<lambda>n. LinuxNamespace.Type n = k"] by blast
  show "\<exists>i<length (namespaces_of g). LinuxNamespace.Type (namespaces_of g ! i) = k \<and>
           (\<forall>j<i. LinuxNamespace.Type (namespaces_of g ! j) \<noteq> k) \<and>
           AddOrReplaceLinuxNamespace k p g =
             (g\<lparr>spec := Some ((the_spec g)\<lparr>Linux := Some ((the_linux (the_spec g))
                \<lparr>Namespaces := (namespaces_of g)[i := \<lparr>LinuxNamespace.Type = k, Path = p\<rparr>]\<rparr>)\<rparr>)\<rparr>,
              None)"
    using firstIndex_Some [OF i] AddOrReplace_found [OF k i, of p]
    by (intro exI [of _ i]) simp
next
  assume k: "k \<in> set Namespaces_names"
  assume "\<forall>n\<in>set (namespaces_of g). LinuxNamespace.Type n \<noteq> k"
  then have "firstIndex (\<lambda>n. LinuxNamespace.Type n = k) (namespaces_of g) = None"
    by (simp add: firstIndex_None_iff)
  from AddOrReplace_new [OF k this]
  show "AddOrReplaceLinuxNamespace k p g =
          (g\<lparr>spec := Some ((the_spec g)\<lparr>Linux := Some ((the_linux (the_spec g))
             \<lparr>Namespaces := namespaces_of g @ [\<lparr>LinuxNamespace.Type = k, Path = p\<rparr>]\<rparr>)\<rparr>)\<rparr>,
           None)" .
next
  assume k: "k \<in> set Namespaces_names"
  show "snd (AddOrReplaceLinuxNamespace k p1 g) = None"
    by (simp add: AddOrReplaceLinuxNamespace_def mapStrToNamespace_known [OF k] Let_def
        split: option.splits)
  show "snd (AddOrReplaceLinuxNamespace k p2 (fst (AddOrReplaceLinuxNamespace k p1 g))) = None"
    by (simp add: AddOrReplaceLinuxNamespace_def [of k p2] mapStrToNamespace_known [OF k] Let_def
        split: option.splits)
  assume d: "distinct (map LinuxNamespace.Type (namespaces_of g))"
  from AddOrReplace_once [OF k d, of p1]
  have "distinct (map LinuxNamespace.Type (namespaces_of (fst (AddOrReplaceLinuxNamespace k p1 g))))"
    by simp
  from AddOrReplace_once [OF k this, of p2]
  show "filter (\<lambda>n. LinuxNamespace.Type n = k)
          (namespaces_of (fst (AddOrReplaceLinuxNamespace k p2
             (fst (AddOrReplaceLinuxNamespace k p1 g))))) =
          [\<lparr>LinuxNamespace.Type = k, Path = p2\<rparr>]" by simp
qed

text \<open>
  A kind that is missing is appended; a kind that is there, set twice, keeps one entry
  with the later path.
\<close>

theorem C4_AddOrReplaceLinuxNamespace_witness:
  "namespaces_of (fst (AddOrReplaceLinuxNamespace ''user'' ''/proc/1/ns/user'' pidnetGenerator)) =
     [\<lparr>LinuxNamespace.Type = ''pid'', Path = []\<rparr>, \<lparr>LinuxNamespace.Type = ''network'', Path = []\<rparr>,
      \<lparr>LinuxNamespace.Type = ''user'', Path = ''/proc/1/ns/user''\<rparr>] \<and>
   filter (\<lambda>n. LinuxNamespace.Type n = ''pid'')
     (namespaces_of (fst (AddOrReplaceLinuxNamespace ''pid'' ''/b''
        (fst (AddOrReplaceLinuxNamespace ''pid'' ''/a'' pidnetGenerator))))) =
     [\<lparr>LinuxNamespace.Type = ''pid'', Path = ''/b''\<rparr>]"
proof -
  have k: "''user'' \<in> set Namespaces_names" "''pid'' \<in> set Namespaces_names"
    by (simp_all add: Namespaces_names_def)
  have "\<forall>n\<in>set (namespaces_of pidnetGenerator). LinuxNamespace.Type n \<noteq> ''user''"
    by (simp add: namespaces_of_pidnet)
  with k(1) C4_AddOrReplaceLinuxNamespace [where k = "''user''" and g = pidnetGenerator
      and p = "''/proc/1/ns/user''"]
  have a: "AddOrReplaceLinuxNamespace ''user'' ''/proc/1/ns/user'' pidnetGenerator =
     (pidnetGenerator\<lparr>spec := Some ((the_spec pidnetGenerator)
        \<lparr>Linux := Some ((the_linux (the_spec pidnetGenerator))
          \<lparr>Namespaces := namespaces_of pidnetGenerator @
             [\<lparr>LinuxNamespace.Type = ''user'', Path = ''/proc/1/ns/user''\<rparr>]\<rparr>)\<rparr>)\<rparr>, None)"
    by blast
  have "distinct (map LinuxNamespace.Type (namespaces_of pidnetGenerator))"
    by (simp add: namespaces_of_pidnet)
  with k(2) C4_AddOrReplaceLinuxNamespace [where k = "''pid''" and g = pidnetGenerator
      and ?p1.0 = "''/a''" and ?p2.0 = "''/b''"]
  have b: "filter (\<lambda>n. LinuxNamespace.Type n = ''pid'')
     (namespaces_of (fst (AddOrReplaceLinuxNamespace ''pid'' ''/b''
        (fst (AddOrReplaceLinuxNamespace ''pid'' ''/a'' pidnetGenerator))))) =
     [\<lparr>LinuxNamespace.Type = ''pid'', Path = ''/b''\<rparr>]"
    by blast
  show ?thesis
    unfolding a by (simp add: b namespaces_of_pidnet the_spec_update the_linux_Some)
qed

section \<open>Mounts\<close>

text \<open>
  C5. \<open>AddBindMount source dest opts\<close> appends one mount of type \<^verbatim>\<open>bind\<close> after the mounts
  that are there and changes nothing else (a missing document is allocated first). The
  options of the new mount are \<open>opts\<close> as given when they contain "bind" or "rbind",
  \<open>opts\<close> followed by "bind" when they contain neither, and "rw", "bind" when \<open>opts\<close> is
  empty.
\<close>

theorem C5_AddBindMount:
  "AddBindMount source dest opts g =
     g\<lparr>spec := Some ((the_spec g)\<lparr>Mounts := Mounts (the_spec g) @
        [\<lparr>Destination = dest, Mount.Type = ''bind'', Source = source,
          Options = (if opts = [] then [''rw'', ''bind'']
                     else if ''bind'' \<in> set opts \<or> ''rbind'' \<in> set opts then opts
                     else opts @ [''bind''])\<rparr>]\<rparr>)\<rparr>"
  unfolding AddBindMount_def Let_def bindOptions_eq the_spec_initSpec initSpec_update
  by (rule refl)

text \<open>The two examples of the specification: no options, and options with a bind flag.\<close>

theorem C5_AddBindMount_witness:
  "Mounts (the_spec (AddBindMount ''/src'' ''/dst'' [] \<lparr>spec = None, HostSpecific = False\<rparr>)) =
     [\<lparr>Destination = ''/dst'', Mount.Type = ''bind'', Source = ''/src'',
       Options = [''rw'', ''bind'']\<rparr>] \<and>
   Mounts (the_spec (AddBindMount ''/src'' ''/dst'' [''rbind'', ''ro'']
      (AddBindMount ''/a'' ''/b'' [''ro''] \<lparr>spec = None, HostSpecific = False\<rparr>))) =
     [\<lparr>Destination = ''/b'', Mount.Type = ''bind'', Source = ''/a'',
       Options = [''ro'', ''bind'']\<rparr>,
      \<lparr>Destination = ''/dst'', Mount.Type = ''bind'', Source = ''/src'',
       Options = [''rbind'', ''ro'']\<rparr>]"
  using C5_AddBindMount [of "''/src''" "''/dst''" "[]" "\<lparr>spec = None, HostSpecific = False\<rparr>"]
    C5_AddBindMount [of "''/a''" "''/b''" "[''ro'']" "\<lparr>spec = None, HostSpecific = False\<rparr>"]
    C5_AddBindMount [of "''/src''" "''/dst''" "[''rbind'', ''ro'']"
      "AddBindMount ''/a'' ''/b'' [''ro''] \<lparr>spec = None, HostSpecific = False\<rparr>"]
  by (simp add: the_spec_def zeroSpec_def)

text \<open>
  C6. \<open>AddCgroupsMount mode\<close>: "no" succeeds and leaves the generator as it is; "ro" and
  "rw" succeed and append one mount (destination \<^verbatim>\<open>/sys/fs/cgroup\<close>, type and source
  \<^verbatim>\<open>cgroup\<close>, options nosuid, noexec, nodev, relatime and the mode) after the mounts
  that are there; every other mode returns the error and leaves the generator as it is.
\<close>

theorem C6_AddCgroupsMount:
  "(mode = ''no'' \<longrightarrow> AddCgroupsMount mode g = (g, None)) \<and>
   (mode = ''ro'' \<or> mode = ''rw'' \<longrightarrow>
      AddCgroupsMount mode g =
        (g\<lparr>spec := Some ((the_spec g)\<lparr>Mounts := Mounts (the_spec g) @
           [\<lparr>Destination = ''/sys/fs/cgroup'', Mount.Type = ''cgroup'', Source = ''cgroup'',
             Options = [''nosuid'', ''noexec'', ''nodev'', ''relatime'', mode]\<rparr>]\<rparr>)\<rparr>,
         None)) \<and>
   (mode \<noteq> ''no'' \<and> mode \<noteq> ''ro'' \<and> mode \<noteq> ''rw'' \<longrightarrow>
      AddCgroupsMount mode g =
        (g, Some (Errorf ''--mount-cgroups should be one of (ro,rw,no)'')))"
  by (auto simp: AddCgroupsMount_def Let_def the_spec_initSpec initSpec_update)

text \<open>The three kinds of mode on a generator without a document.\<close>

theorem C6_AddCgroupsMount_witness:
  "AddCgroupsMount ''no'' \<lparr>spec = None, HostSpecific = False\<rparr> =
     (\<lparr>spec = None, HostSpecific = False\<rparr>, None) \<and>
   snd (AddCgroupsMount ''ro'' \<lparr>spec = None, HostSpecific = False\<rparr>) = None \<and>
   Mounts (the_spec (fst (AddCgroupsMount ''ro'' \<lparr>spec = None, HostSpecific = False\<rparr>))) =
     [\<lparr>Destination = ''/sys/fs/cgroup'', Mount.Type = ''cgroup'', Source = ''cgroup'',
       Options = [''nosuid'', ''noexec'', ''nodev'', ''relatime'', ''ro'']\<rparr>] \<and>
   AddCgroupsMount ''bogus'' \<lparr>spec = None, HostSpecific = False\<rparr> =
     (\<lparr>spec = None, HostSpecific = False\<rparr>,
      Some (Errorf ''--mount-cgroups should be one of (ro,rw,no)''))"
  using C6_AddCgroupsMount [of "''no''" "\<lparr>spec = None, HostSpecific = False\<rparr>"]
    C6_AddCgroupsMount [of "''ro''" "\<lparr>spec = None, HostSpecific = False\<rparr>"]
    C6_AddCgroupsMount [of "''bogus''" "\<lparr>spec = None, HostSpecific = False\<rparr>"]
  by (simp add: the_spec_def zeroSpec_def)

section \<open>Resource limits\<close>

text \<open>
  C7. When the limits hold an entry of type \<open>t\<close>, \<open>AddProcessRlimits t h s\<close> overwrites
  the hard and soft value of the first one where it stands and \<open>RemoveProcessRlimits t\<close>
  deletes that entry; when they hold none, \<open>AddProcessRlimits\<close> appends the new entry
  and \<open>RemoveProcessRlimits\<close> changes nothing. Both keep the types of the entries
  distinct, and \<open>RemoveProcessRlimits\<close> always succeeds.
\<close>

theorem C7_rlimits:
  "((\<exists>r\<in>set (rlimits_of g). LinuxRlimit.Type r = t) \<longrightarrow>
      (\<exists>i<length (rlimits_of g). LinuxRlimit.Type (rlimits_of g ! i) = t \<and>
         (\<forall>j<i. LinuxRlimit.Type (rlimits_of g ! j) \<noteq> t) \<and>
         AddProcessRlimits t h s g =
           g\<lparr>spec := Some ((the_spec g)\<lparr>Process := (Process (the_spec g))
              \<lparr>Rlimits := (rlimits_of g)[i := (rlimits_of g ! i)\<lparr>Hard := h, Soft := s\<rparr>]\<rparr>\<rparr>)\<rparr> \<and>
         RemoveProcessRlimits t g =
           (g\<lparr>spec := Some ((the_spec g)\<lparr>Process := (Process (the_spec g))
              \<lparr>Rlimits := take i (rlimits_of g) @ drop (Suc i) (rlimits_of g)\<rparr>\<rparr>)\<rparr>, None))) \<and>
   ((\<forall>r\<in>set (rlimits_of g). LinuxRlimit.Type r \<noteq> t) \<longrightarrow>
      AddProcessRlimits t h s g =
        g\<lparr>spec := Some ((the_spec g)\<lparr>Process := (Process (the_spec g))
           \<lparr>Rlimits := rlimits_of g @ [\<lparr>LinuxRlimit.Type = t, Hard = h, Soft = s\<rparr>]\<rparr>\<rparr>)\<rparr> \<and>
      RemoveProcessRlimits t g = (g, None)) \<and>
   (distinct (map LinuxRlimit.Type (rlimits_of g)) \<longrightarrow>
      distinct (map LinuxRlimit.Type (rlimits_of (AddProcessRlimits t h s g))) \<and>
      distinct (map LinuxRlimit.Type (rlimits_of (fst (RemoveProcessRlimits t g))))) \<and>
   snd (RemoveProcessRlimits t g) = None"
proof (intro conjI impI)
  assume ex: "\<exists>r\<in>set (rlimits_of g). LinuxRlimit.Type r = t"
  then obtain i where i: "firstIndex (\<lambda>r. LinuxRlimit.Type r = t) (rlimits_of g) = Some i"
    using firstIndex_Some_ex [of "rlimits_of g" "\<lambda>r. LinuxRlimit.Type r = t"] by blast
  from ex have "rlimits_of g \<noteq> []" by auto
  then obtain d where d: "spec g = Some d"
    by (cases "spec g") (auto simp: the_spec_def zeroSpec_def zeroProcess_def)
  then have td: "the_spec g = d" by (simp add: the_spec_def)
  from i have i': "firstIndex (\<lambda>r. LinuxRlimit.Type r = t) (Rlimits (Process d)) = Some i"
    by (simp add: td)
  show "\<exists>i<length (rlimits_of g). LinuxRlimit.Type (rlimits_of g ! i) = t \<and>
         (\<forall>j<i. LinuxRlimit.Type (rlimits_of g ! j) \<noteq> t) \<and>
         AddProcessRlimits t h s g =
           g\<lparr>spec := Some ((the_spec g)\<lparr>Process := (Process (the_spec g))
              \<lparr>Rlimits := (rlimits_of g)[i := (rlimits_of g ! i)\<lparr>Hard := h, Soft := s\<rparr>]\<rparr>\<rparr>)\<rparr> \<and>
         RemoveProcessRlimits t g =
           (g\<lparr>spec := Some ((the_spec g)\<lparr>Process := (Process (the_spec g))
              \<lparr>Rlimits := take i (rlimits_of g) @ drop (Suc i) (rlimits_of g)\<rparr>\<rparr>)\<rparr>, None)"
    using firstIndex_Some [OF i] AddProcessRlimits_found [OF i, of h s]
      RemoveProcessRlimits_found [OF d i']
    by (intro exI [of _ i]) (simp add: td)
next
  assume "\<forall>r\<in>set (rlimits_of g). LinuxRlimit.Type r \<noteq> t"
  then show "AddProcessRlimits t h s g =
        g\<lparr>spec := Some ((the_spec g)\<lparr>Process := (Process (the_spec g))
           \<lparr>Rlimits := rlimits_of g @ [\<lparr>LinuxRlimit.Type = t, Hard = h, Soft = s\<rparr>]\<rparr>\<rparr>)\<rparr>"
    using AddProcessRlimits_new [of t g h s] by (simp add: firstIndex_None_iff)
next
  assume "\<forall>r\<in>set (rlimits_of g). LinuxRlimit.Type r \<noteq> t"
  then show "RemoveProcessRlimits t g = (g, None)"
    by (rule RemoveProcessRlimits_absent)
next
  assume "distinct (map LinuxRlimit.Type (rlimits_of g))"
  then show "distinct (map LinuxRlimit.Type (rlimits_of (AddProcessRlimits t h s g)))"
    by (rule AddProcessRlimits_distinct)
next
  assume "distinct (map LinuxRlimit.Type (rlimits_of g))"
  then show "distinct (map LinuxRlimit.Type (rlimits_of (fst (RemoveProcessRlimits t g))))"
    by (rule RemoveProcessRlimits_distinct)
next
  show "snd (RemoveProcessRlimits t g) = None"
    by (simp add: RemoveProcessRlimits_def split: option.splits)
qed

text \<open>
  On the limit of the default document: overwriting and removing \<^verbatim>\<open>RLIMIT_NOFILE\<close>,
  appending \<^verbatim>\<open>RLIMIT_NPROC\<close> and removing it where it is missing.
\<close>

theorem C7_rlimits_witness:
  "rlimits_of (AddProcessRlimits ''RLIMIT_NOFILE'' 4096 2048 nofileGenerator) =
     [\<lparr>LinuxRlimit.Type = ''RLIMIT_NOFILE'', Hard = 4096, Soft = 2048\<rparr>] \<and>
   rlimits_of (fst (RemoveProcessRlimits ''RLIMIT_NOFILE'' nofileGenerator)) = [] \<and>
   rlimits_of (AddProcessRlimits ''RLIMIT_NPROC'' 10 5 nofileGenerator) =
     [\<lparr>LinuxRlimit.Type = ''RLIMIT_NOFILE'', Hard = 1024, Soft = 1024\<rparr>,
      \<lparr>LinuxRlimit.Type = ''RLIMIT_NPROC'', Hard = 10, Soft = 5\<rparr>] \<and>
   RemoveProcessRlimits ''RLIMIT_NPROC'' nofileGenerator = (nofileGenerator, None)"
proof -
  have "\<exists>r\<in>set (rlimits_of nofileGenerator). LinuxRlimit.Type r = ''RLIMIT_NOFILE''"
    by (simp add: rlimits_of_nofile)
  with C7_rlimits [where g = nofileGenerator and t = "''RLIMIT_NOFILE''" and h = 4096 and s = 2048]
  obtain i where i: "i < length (rlimits_of nofileGenerator)"
    and a: "AddProcessRlimits ''RLIMIT_NOFILE'' 4096 2048 nofileGenerator =
       nofileGenerator\<lparr>spec := Some ((the_spec nofileGenerator)
         \<lparr>Process := (Process (the_spec nofileGenerator))
           \<lparr>Rlimits := (rlimits_of nofileGenerator)
              [i := (rlimits_of nofileGenerator ! i)\<lparr>Hard := 4096, Soft := 2048\<rparr>]\<rparr>\<rparr>)\<rparr>"
    and r: "RemoveProcessRlimits ''RLIMIT_NOFILE'' nofileGenerator =
       (nofileGenerator\<lparr>spec := Some ((the_spec nofileGenerator)
         \<lparr>Process := (Process (the_spec nofileGenerator))
           \<lparr>Rlimits := take i (rlimits_of nofileGenerator) @
                       drop (Suc i) (rlimits_of nofileGenerator)\<rparr>\<rparr>)\<rparr>, None)"
    by blast
  from i have i0: "i = 0" by (simp add: rlimits_of_nofile)
  have "\<forall>r\<in>set (rlimits_of nofileGenerator). LinuxRlimit.Type r \<noteq> ''RLIMIT_NPROC''"
    by (simp add: rlimits_of_nofile)
  with C7_rlimits [where g = nofileGenerator and t = "''RLIMIT_NPROC''" and h = 10 and s = 5]
  have n: "AddProcessRlimits ''RLIMIT_NPROC'' 10 5 nofileGenerator =
       nofileGenerator\<lparr>spec := Some ((the_spec nofileGenerator)
         \<lparr>Process := (Process (the_spec nofileGenerator))
           \<lparr>Rlimits := rlimits_of nofileGenerator @
              [\<lparr>LinuxRlimit.Type = ''RLIMIT_NPROC'', Hard = 10, Soft = 5\<rparr>]\<rparr>\<rparr>)\<rparr>"
    and m: "RemoveProcessRlimits ''RLIMIT_NPROC'' nofileGenerator = (nofileGenerator, None)"
    by blast+
  show ?thesis
    unfolding a r n m i0 by (simp add: rlimits_of_nofile the_spec_update)
qed

section \<open>Saving and clearing on missing data\<close>

text \<open>
  C8. \<open>Save\<close> with the \<^verbatim>\<open>Seccomp\<close> option panics on a \<^verbatim>\<open>nil\<close> pointer whenever the Linux
  subtree is missing: when the document itself is missing, when its Linux subtree is,
  and when the Linux subtree encodes to the empty object, in which case the statement
  before has just set it to \<^verbatim>\<open>nil\<close> (and the document stays pruned).
\<close>

theorem C8_Save_Seccomp_panics:
  "ExportOptions.Seccomp opts \<longrightarrow>
     (spec g = None \<longrightarrow> Save ser opts g = (g, Panic)) \<and>
     (spec g = Some s \<and> Linux s = None \<longrightarrow> Save ser opts g = (g, Panic)) \<and>
     (spec g = Some s \<and> Linux s = Some l \<and> Marshal_Linux ser l = Inr ''{}'' \<longrightarrow>
        Save ser opts g = (g\<lparr>spec := Some (s\<lparr>Linux := None\<rparr>)\<rparr>, Panic))"
  by (auto simp: Save_def pruneLinux_def Let_def spec_update_same)

text \<open>
  No document, a document without Linux subtree, and a document whose Linux subtree is
  the zero value.
\<close>

theorem C8_Save_Seccomp_panics_witness:
  "Save sampleSerializer \<lparr>Seccomp = True\<rparr> \<lparr>spec = None, HostSpecific = False\<rparr> =
     (\<lparr>spec = None, HostSpecific = False\<rparr>, Panic) \<and>
   Save sampleSerializer \<lparr>Seccomp = True\<rparr> \<lparr>spec = Some zeroSpec, HostSpecific = False\<rparr> =
     (\<lparr>spec = Some zeroSpec, HostSpecific = False\<rparr>, Panic) \<and>
   Save sampleSerializer \<lparr>Seccomp = True\<rparr>
     \<lparr>spec = Some (zeroSpec\<lparr>Linux := Some zeroLinux\<rparr>), HostSpecific = False\<rparr> =
     (\<lparr>spec = Some zeroSpec, HostSpecific = False\<rparr>, Panic)"
  using C8_Save_Seccomp_panics [where opts = "\<lparr>Seccomp = True\<rparr>" and ser = sampleSerializer
      and g = "\<lparr>spec = None, HostSpecific = False\<rparr>" and s = zeroSpec and l = zeroLinux]
    C8_Save_Seccomp_panics [where opts = "\<lparr>Seccomp = True\<rparr>" and ser = sampleSerializer
      and g = "\<lparr>spec = Some zeroSpec, HostSpecific = False\<rparr>" and s = zeroSpec
      and l = zeroLinux]
    C8_Save_Seccomp_panics [where opts = "\<lparr>Seccomp = True\<rparr>" and ser = sampleSerializer
      and g = "\<lparr>spec = Some (zeroSpec\<lparr>Linux := Some zeroLinux\<rparr>), HostSpecific = False\<rparr>"
      and s = "zeroSpec\<lparr>Linux := Some zeroLinux\<rparr>" and l = zeroLinux]
  by (simp add: sampleSerializer_def zeroSpec_def)

text \<open>
  C10. On a generator without a document, every clearing and removing operation
  returns, the ones with a result successfully, and the generator stays without a
  document.
\<close>

theorem C10_nil_document:
  "spec g = None \<longrightarrow>
     ClearProcessCapabilities g = g \<and> ClearProcessRlimits g = g \<and>
     RemoveProcessRlimits rType g = (g, None) \<and>
     ClearProcessEnv g = g \<and> ClearProcessAdditionalGids g = g \<and>
     ClearAnnotations g = g \<and> RemoveAnnotation key g = g \<and>
     ClearLinuxNamespaces g = g \<and>
     (k \<in> set Namespaces_names \<longrightarrow> RemoveLinuxNamespace k g = (g, None)) \<and>
     ClearLinuxSysctl g = g \<and> RemoveLinuxSysctl key g = g \<and>
     ClearLinuxUIDMappings g = g \<and> ClearLinuxGIDMappings g = g \<and>
     ClearPreStartHooks g = g \<and> ClearPostStopHooks g = g \<and> ClearPostStartHooks g = g"
  by (simp add: ClearProcessCapabilities_def ClearProcessRlimits_def RemoveProcessRlimits_def
      ClearProcessEnv_def ClearProcessAdditionalGids_def ClearAnnotations_def
      RemoveAnnotation_def ClearLinuxNamespaces_def ClearLinuxSysctl_def RemoveLinuxSysctl_def
      ClearLinuxUIDMappings_def ClearLinuxGIDMappings_def ClearPreStartHooks_def
      ClearPostStopHooks_def ClearPostStartHooks_def Remove_absent)

text \<open>
  Four of the operations on the generator without a document.
\<close>

theorem C10_nil_document_witness:
  "ClearProcessCapabilities \<lparr>spec = None, HostSpecific = False\<rparr> = \<lparr>spec = None, HostSpecific = False\<rparr> \<and>
   RemoveProcessRlimits ''RLIMIT_NOFILE'' \<lparr>spec = None, HostSpecific = False\<rparr> =
     (\<lparr>spec = None, HostSpecific = False\<rparr>, None) \<and>
   RemoveLinuxNamespace ''pid'' \<lparr>spec = None, HostSpecific = False\<rparr> =
     (\<lparr>spec = None, HostSpecific = False\<rparr>, None) \<and>
   ClearPostStartHooks \<lparr>spec = None, HostSpecific = False\<rparr> = \<lparr>spec = None, HostSpecific = False\<rparr>"
  using C10_nil_document [where g = "\<lparr>spec = None, HostSpecific = False\<rparr>"
      and rType = "''RLIMIT_NOFILE''" and key = "''k''" and k = "''pid''"]
  by (simp add: Namespaces_names_def)

end
